theory Spec2Isabelle
  imports Main "HOL-Library.Sublist" "HOL-Library.AList"
begin

section \<open>The grading harness \<^verbatim>\<open>grader.py\<close>\<close>

text \<open>
  A shallow embedding of \<^verbatim>\<open>src/grader.py\<close>. Every function the harness calls is a HOL
  function of the same name; the blocks of \<^verbatim>\<open>capture_output_and_files\<close> and
  \<^verbatim>\<open>process_project\<close> that the properties speak about have names of their own, with the
  lines they stand for. What the source takes from its surroundings is made explicit:
  \<^item> a Python \<^verbatim>\<open>str\<close> is a \<^typ>\<open>string\<close>; a \<^typ>\<open>char\<close> stands for one code point below 256,
    so the whitespace and line-break tables below are Python's tables cut at 256;
  \<^item> an exception is a value \<^verbatim>\<open>Exn\<close> that carries whether it is an instance of
    \<^verbatim>\<open>Exception\<close>, its \<^verbatim>\<open>str(e)\<close> and the text \<^verbatim>\<open>traceback.format_exc()\<close> gives for it;
  \<^item> the working directory, the console and \<^verbatim>\<open>builtins.input\<close> are the fields of a record
    \<open>world\<close>, passed in and returned;
  \<^item> the submission's \<^verbatim>\<open>main\<close> is a tree of the actions it performs (\<open>prog\<close>); the
    Python interpreter that executes a submission's source text is a parameter \<open>py\<close>.
\<close>

subsection \<open>Python strings\<close>

abbreviation LF :: char where "LF \<equiv> CHR 0x0A"
abbreviation CR :: char where "CR \<equiv> CHR 0x0D"

text \<open>\<^verbatim>\<open>str.isspace\<close> on one character: the whitespace code points below 256.\<close>

definition isspace :: "char \<Rightarrow> bool" where
  "isspace c = (c \<in> set [CHR 0x09, LF, CHR 0x0B, CHR 0x0C, CR, CHR 0x1C, CHR 0x1D,
                          CHR 0x1E, CHR 0x1F, CHR 0x20, CHR 0x85, CHR 0xA0])"

text \<open>\<^verbatim>\<open>s.lstrip()\<close>, \<^verbatim>\<open>s.rstrip()\<close> and \<^verbatim>\<open>s.strip()\<close> without arguments.\<close>

definition lstrip :: "string \<Rightarrow> string" where
  "lstrip s = dropWhile isspace s"

definition rstrip :: "string \<Rightarrow> string" where
  "rstrip s = rev (dropWhile isspace (rev s))"

definition strip :: "string \<Rightarrow> string" where
  "strip s = lstrip (rstrip s)"

text \<open>
  \<^verbatim>\<open>s.splitlines()\<close>: the text is cut at every line boundary (\<^verbatim>\<open>\r\n\<close> counts as one),
  the boundaries are dropped, and a text that ends with a boundary has no empty last line.
\<close>

definition is_linebreak :: "char \<Rightarrow> bool" where
  "is_linebreak c = (c \<in> set [LF, CHR 0x0B, CHR 0x0C, CR, CHR 0x1C, CHR 0x1D, CHR 0x1E,
                               CHR 0x85])"

fun splitlines_from :: "string \<Rightarrow> string \<Rightarrow> string list" where
  "splitlines_from cur [] = (if cur = [] then [] else [cur])"
| "splitlines_from cur [c] = (if is_linebreak c then [cur] else [cur @ [c]])"
| "splitlines_from cur (c # d # cs) =
     (if c = CR \<and> d = LF then cur # splitlines_from [] cs
      else if is_linebreak c then cur # splitlines_from [] (d # cs)
      else splitlines_from (cur @ [c]) (d # cs))"

definition splitlines :: "string \<Rightarrow> string list" where
  "splitlines s = splitlines_from [] s"

text \<open>
  \<^verbatim>\<open>s.replace(old, new)\<close>: every occurrence of \<open>old\<close>, found from left to right without
  overlap, becomes \<open>new\<close>. (For an empty \<open>old\<close> Python puts \<open>new\<close> around every character.)
\<close>

fun str_replace :: "string \<Rightarrow> string \<Rightarrow> string \<Rightarrow> string" where
  "str_replace old new [] = (if old = [] then new else [])"
| "str_replace old new (c # cs) =
     (if old = [] then new @ c # str_replace old new cs
      else if prefix old (c # cs) then new @ str_replace old new (drop (length old) (c # cs))
      else c # str_replace old new cs)"

text \<open>\<^verbatim>\<open>s.endswith(suffix)\<close>.\<close>

definition endswith :: "string \<Rightarrow> string \<Rightarrow> bool" where
  "endswith s suf = (length suf \<le> length s \<and> drop (length s - length suf) s = suf)"

text \<open>\<^verbatim>\<open>sep.join(xs)\<close>.\<close>

fun join :: "string \<Rightarrow> string list \<Rightarrow> string" where
  "join sep [] = []"
| "join sep [x] = x"
| "join sep (x # y # ys) = x @ sep @ join sep (y # ys)"

text \<open>The decimal text of a number, as \<^verbatim>\<open>str.format\<close> and f-strings write it.\<close>

fun str_of_nat :: "nat \<Rightarrow> string" where
  "str_of_nat n =
     (if n < 10 then [''0123456789'' ! n]
      else str_of_nat (n div 10) @ [''0123456789'' ! (n mod 10)])"

text \<open>
  Reading a text file: \<^verbatim>\<open>open(p, 'r')\<close> translates \<^verbatim>\<open>\r\n\<close> and a lone \<^verbatim>\<open>\r\<close> to \<^verbatim>\<open>\n\<close>
  (universal newlines), and \<^verbatim>\<open>f.readlines()\<close> cuts the text after every \<^verbatim>\<open>\n\<close>, keeping it.
\<close>

fun universal_newlines :: "string \<Rightarrow> string" where
  "universal_newlines [] = []"
| "universal_newlines [c] = (if c = CR then [LF] else [c])"
| "universal_newlines (c # d # cs) =
     (if c = CR \<and> d = LF then LF # universal_newlines cs
      else if c = CR then LF # universal_newlines (d # cs)
      else c # universal_newlines (d # cs))"

fun readlines :: "string \<Rightarrow> string list" where
  "readlines [] = []"
| "readlines (c # cs) =
     (if c = LF then [c] # readlines cs
      else (case readlines cs of [] \<Rightarrow> [[c]] | l # ls \<Rightarrow> (c # l) # ls))"

subsection \<open>Exceptions\<close>

text \<open>
  An exception value: \<open>is_Exception e\<close> says whether \<^verbatim>\<open>except Exception\<close> catches it
  (\<^verbatim>\<open>SystemExit\<close>, \<^verbatim>\<open>KeyboardInterrupt\<close> and \<^verbatim>\<open>GeneratorExit\<close> derive from
  \<^verbatim>\<open>BaseException\<close> only), \<open>exn_str e\<close> is \<^verbatim>\<open>str(e)\<close>, and \<open>exn_trace e\<close> is the text of
  \<^verbatim>\<open>traceback.format_exc()\<close> while \<open>e\<close> is being handled.
\<close>

datatype exn = Exn (is_Exception: bool) (exn_str: string) (exn_trace: string)

definition quoted :: "string \<Rightarrow> string" where
  "quoted s = CHR 0x27 # s @ [CHR 0x27]"

text \<open>An error of the ordinary class raised by the runtime; the stack frames of the trace are left out.\<close>

definition raised :: "string \<Rightarrow> string \<Rightarrow> exn" where
  "raised cls msg =
     Exn True msg (''Traceback (most recent call last):'' @ [LF] @ cls @ '': '' @ msg @ [LF])"

definition FileNotFoundError :: "string \<Rightarrow> exn" where
  "FileNotFoundError p =
     raised ''FileNotFoundError'' (''[Errno 2] No such file or directory: '' @ quoted p)"

definition FileExistsError :: "string \<Rightarrow> exn" where
  "FileExistsError p = raised ''FileExistsError'' (''[Errno 17] File exists: '' @ quoted p)"

definition IsADirectoryError :: "string \<Rightarrow> exn" where
  "IsADirectoryError p = raised ''IsADirectoryError'' (''[Errno 21] Is a directory: '' @ quoted p)"

definition NotADirectoryError :: "string \<Rightarrow> exn" where
  "NotADirectoryError p = raised ''NotADirectoryError'' (''[Errno 20] Not a directory: '' @ quoted p)"

definition SystemExit :: exn where
  "SystemExit = Exn False '''' (''SystemExit'' @ [LF])"

definition UnboundLocalError :: "string \<Rightarrow> exn" where
  "UnboundLocalError v =
     raised ''UnboundLocalError''
       (''cannot access local variable '' @ quoted v @ '' where it is not associated with a value'')"

definition shutil_Error :: "string \<Rightarrow> exn" where
  "shutil_Error msg = raised ''shutil.Error'' msg"

subsection \<open>The working directory\<close>

text \<open>
  The files the harness can see: an association list from paths to nodes. A path is
  relative to the working directory, \<^verbatim>\<open>name\<close> or \<^verbatim>\<open>folder/name\<close>; the entries of the working
  directory itself are the paths without a \<^verbatim>\<open>/\<close>. The operations fail where the code
  depends on it (a missing file, a name that is taken, a missing parent directory);
  permissions and full disks are not modelled.
\<close>

datatype node = File string | Dir

type_synonym filesystem = "(string \<times> node) list"

definition os_path_exists :: "filesystem \<Rightarrow> string \<Rightarrow> bool" where
  "os_path_exists files p = (map_of files p \<noteq> None)"

definition os_path_isdir :: "filesystem \<Rightarrow> string \<Rightarrow> bool" where
  "os_path_isdir files p = (map_of files p = Some Dir)"

definition os_listdir :: "filesystem \<Rightarrow> string list" where
  "os_listdir files = remdups (filter (\<lambda>p. CHR ''/'' \<notin> set p) (map fst files))"

text \<open>\<^verbatim>\<open>os.path.join(a, b)\<close>, \<^verbatim>\<open>os.path.dirname(p)\<close> and \<^verbatim>\<open>os.path.basename(p)\<close> of \<^verbatim>\<open>posixpath\<close>.\<close>

definition os_path_join :: "string \<Rightarrow> string \<Rightarrow> string" where
  "os_path_join a b =
     (if prefix ''/'' b then b
      else if a = [] \<or> endswith a ''/'' then a @ b
      else a @ ''/'' @ b)"

definition os_path_basename :: "string \<Rightarrow> string" where
  "os_path_basename p = rev (takeWhile (\<lambda>c. c \<noteq> CHR ''/'') (rev p))"

definition os_path_dirname :: "string \<Rightarrow> string" where
  "os_path_dirname p =
     (let head = rev (dropWhile (\<lambda>c. c \<noteq> CHR ''/'') (rev p)) in
      if head \<noteq> [] \<and> head \<noteq> replicate (length head) (CHR ''/'')
      then rev (dropWhile (\<lambda>c. c = CHR ''/'') (rev head))
      else head)"

text \<open>The parent directory of \<open>p\<close> is there: \<open>p\<close> lies in the working directory or in a directory.\<close>

definition parent_ok :: "filesystem \<Rightarrow> string \<Rightarrow> bool" where
  "parent_ok files p = (os_path_dirname p = [] \<or> os_path_isdir files (os_path_dirname p))"

text \<open>
  \<^verbatim>\<open>os.makedirs(p)\<close> for a name in the working directory (the harness derives the name from
  a directory entry, which has no \<^verbatim>\<open>/\<close>).
\<close>

definition os_makedirs :: "filesystem \<Rightarrow> string \<Rightarrow> exn + filesystem" where
  "os_makedirs files p =
     (if p = [] then Inl (FileNotFoundError p)
      else if os_path_exists files p then Inl (FileExistsError p)
      else if parent_ok files p then Inr (files @ [(p, Dir)])
      else Inl (FileNotFoundError p))"

text \<open>\<^verbatim>\<open>open(p, 'r').read()\<close> and \<^verbatim>\<open>open(p, 'w').write(content)\<close>.\<close>

definition open_read :: "filesystem \<Rightarrow> string \<Rightarrow> exn + string" where
  "open_read files p =
     (case map_of files p of
        Some (File content) \<Rightarrow> Inr content
      | Some Dir \<Rightarrow> Inl (IsADirectoryError p)
      | None \<Rightarrow> Inl (FileNotFoundError p))"

definition open_write :: "filesystem \<Rightarrow> string \<Rightarrow> string \<Rightarrow> exn + filesystem" where
  "open_write files p content =
     (if p = [] then Inl (FileNotFoundError p)
      else if os_path_isdir files p then Inl (IsADirectoryError p)
      else if parent_ok files p then Inr (AList.update p (File content) files)
      else if os_path_exists files (os_path_dirname p) then Inl (NotADirectoryError p)
      else Inl (FileNotFoundError p))"

text \<open>
  \<^verbatim>\<open>os.rename(src, dst)\<close>: the node at \<open>src\<close>, and everything below it, moves to \<open>dst\<close>;
  a regular file at \<open>dst\<close> is replaced. \<^verbatim>\<open>shutil.move(src, dst)\<close> moves \<open>src\<close> into \<open>dst\<close>
  when \<open>dst\<close> is a directory, and refuses when the name is taken there.
\<close>

definition rename_path :: "string \<Rightarrow> string \<Rightarrow> string \<Rightarrow> string" where
  "rename_path src dst p =
     (if p = src then dst
      else if prefix (src @ ''/'') p then dst @ drop (length src) p
      else p)"

definition os_rename :: "filesystem \<Rightarrow> string \<Rightarrow> string \<Rightarrow> exn + filesystem" where
  "os_rename files src dst =
     (if \<not> os_path_exists files src then Inl (FileNotFoundError src)
      else if \<not> parent_ok files dst then Inl (FileNotFoundError dst)
      else if os_path_isdir files dst then Inl (IsADirectoryError dst)
      else if os_path_isdir files src \<and> os_path_exists files dst then Inl (NotADirectoryError dst)
      else Inr (map (\<lambda>(p, n). (rename_path src dst p, n)) (filter (\<lambda>(p, n). p \<noteq> dst) files)))"

definition shutil_move :: "filesystem \<Rightarrow> string \<Rightarrow> string \<Rightarrow> exn + filesystem" where
  "shutil_move files src dst =
     (if os_path_isdir files dst then
        (let real_dst = os_path_join dst (os_path_basename src) in
         if os_path_exists files real_dst
         then Inl (shutil_Error (''Destination path '' @ quoted real_dst @ '' already exists''))
         else os_rename files src real_dst)
      else os_rename files src dst)"

subsection \<open>The process state\<close>

text \<open>
  \<open>fs\<close> is the working directory, \<open>console\<close> the texts printed to the real standard output
  (one entry for each \<^verbatim>\<open>print\<close>), \<open>builtins_input\<close> the function installed as
  \<^verbatim>\<open>builtins.input\<close>, and \<open>thread_start_error\<close> what \<^verbatim>\<open>Thread.start()\<close> raises in the
  controlling thread, if anything (Python raises \<^verbatim>\<open>RuntimeError\<close> when no thread can be
  started). The standard error stream is not modelled.
\<close>

datatype input_fn = Builtin_input | Mock_input

record world =
  fs :: filesystem
  console :: "string list"
  builtins_input :: input_fn
  thread_start_error :: "exn option"

definition py_print :: "string \<Rightarrow> world \<Rightarrow> world" where
  "py_print s w = w\<lparr>console := console w @ [s]\<rparr>"

subsection \<open>Submissions\<close>

text \<open>
  What a submission's \<^verbatim>\<open>main()\<close> does when the worker thread calls it, as a tree:
  \<open>Write s k\<close> writes \<open>s\<close> to \<^verbatim>\<open>sys.stdout\<close> (a \<^verbatim>\<open>print(x)\<close> writes \<^verbatim>\<open>str(x)\<close> and a newline),
  \<open>Input p k\<close> calls \<^verbatim>\<open>input(p)\<close> and goes on with \<open>k v\<close> for the value \<open>v\<close> it gets,
  \<open>Files f k\<close> changes the working directory by \<open>f\<close> (creating, deleting or renaming files),
  \<open>Return v\<close> returns (\<open>None\<close> is Python's \<^verbatim>\<open>None\<close>), \<open>Raise e\<close> ends with the exception \<open>e\<close>
  uncaught, and \<open>Running\<close> is the point the worker has reached when the controlling thread's
  \<^verbatim>\<open>join(timeout_duration)\<close> gives up: what the worker does after that runs concurrently
  with the controller and is outside this model.
\<close>

datatype 'v prog =
    Write string "'v prog"
  | Input string "string \<Rightarrow> 'v prog"
  | Files "filesystem \<Rightarrow> filesystem" "'v prog"
  | Return "'v option"
  | Raise exn
  | Running

text \<open>How the worker thread stands when \<^verbatim>\<open>join\<close> returns.\<close>

datatype 'v outcome = Returned "'v option" | Raised exn | Alive

text \<open>A loaded module: \<open>main_attr\<close> is its attribute \<^verbatim>\<open>main\<close>, if it has one.\<close>

datatype 'v module = Module (main_attr: "'v prog option")

text \<open>
  What executing a submission's source text does (\<^verbatim>\<open>spec.loader.exec_module\<close>, line 30): it
  yields a module, raises, or never returns (the harness puts no time limit on loading). The
  top-level code runs in the controlling thread with the real standard output and the real
  \<^verbatim>\<open>input\<close>: the interpreter \<open>py\<close>, a parameter, gives for a source text and the working
  directory it finds the load, the working directory it leaves and the texts it prints, in
  order. What the code reads from standard input is part of \<open>py\<close>.
\<close>

datatype 'v load = Loaded "'v module" | Load_raises exn | Load_hangs

type_synonym 'v interpreter = "string \<Rightarrow> filesystem \<Rightarrow> 'v load \<times> filesystem \<times> string list"

text \<open>How a call of \<^verbatim>\<open>process_project\<close> or \<^verbatim>\<open>main\<close> ends: it returns, an exception leaves it, or it never returns.\<close>

datatype status = Done | Escaped exn | Hung

subsection \<open>\<^verbatim>\<open>load_input_prompts\<close>, \<^verbatim>\<open>import_student_module\<close>, \<^verbatim>\<open>create_project_folder\<close>\<close>

text \<open>
  Lines 20 to 23: \<^verbatim>\<open>[line.strip() for line in f.readlines()]\<close> over \<^verbatim>\<open>input.txt\<close>; a failing
  \<^verbatim>\<open>open\<close> raises. (The class \<^verbatim>\<open>TimeoutException\<close> and \<^verbatim>\<open>timeout_handler\<close> of lines 14 to 18
  are never used by the source.)
\<close>

definition load_input_prompts :: "world \<Rightarrow> exn + string list" where
  "load_input_prompts w =
     (case open_read (fs w) ''input.txt'' of
        Inl e \<Rightarrow> Inl e
      | Inr content \<Rightarrow> Inr (map strip (readlines (universal_newlines content))))"

text \<open>
  Lines 25 to 31: the loader reads the file, which can fail, and executes its text; the
  files the top-level code leaves and the texts it prints are in the world that is returned.
  The registration in \<^verbatim>\<open>sys.modules\<close> is not modelled.
\<close>

definition import_student_module :: "'v interpreter \<Rightarrow> string \<Rightarrow> world \<Rightarrow> 'v load \<times> world" where
  "import_student_module py file_path w =
     (case open_read (fs w) file_path of
        Inl e \<Rightarrow> (Load_raises e, w)
      | Inr source \<Rightarrow>
          (case py source (fs w) of
             (l, files, printed) \<Rightarrow> (l, w\<lparr>fs := files, console := console w @ printed\<rparr>)))"

text \<open>Line 35: the folder name derived from the project's name.\<close>

definition folder_name_of :: "string \<Rightarrow> string" where
  "folder_name_of project_name = str_replace ''.py'' [] project_name"

text \<open>Lines 33 to 38.\<close>

definition create_project_folder :: "string \<Rightarrow> world \<Rightarrow> (exn + string) \<times> world" where
  "create_project_folder project_name w =
     (let folder_name = folder_name_of project_name in
      if \<not> os_path_exists (fs w) folder_name then
        (case os_makedirs (fs w) folder_name of
           Inl e \<Rightarrow> (Inl e, w)
         | Inr files \<Rightarrow> (Inr folder_name, w\<lparr>fs := files\<rparr>))
      else (Inr folder_name, w))"

subsection \<open>\<^verbatim>\<open>run_with_timeout\<close>\<close>

text \<open>
  Lines 40 to 63. \<open>func\<close> is the callable as the worker thread runs it: from the state it
  finds (\<open>'s\<close> is whatever the callable shares with its caller, beside the world) it gives the
  worker's standing when \<^verbatim>\<open>join\<close> returns, and the state by then. \<open>target\<close> fills the
  lists \<^verbatim>\<open>result\<close> and \<^verbatim>\<open>error\<close>; its \<^verbatim>\<open>except Exception\<close> passes over an exception
  outside that class, which ends the thread and leaves both lists empty.
\<close>

definition timeout_message :: "nat \<Rightarrow> string" where
  "timeout_message timeout_duration =
     ''Program execution timed out after '' @ str_of_nat timeout_duration @ '' seconds''"

definition target :: "'v outcome \<Rightarrow> 'v option list \<times> string list" where
  "target out =
     (case out of
        Returned v \<Rightarrow> ([v], [])
      | Raised e \<Rightarrow> (if is_Exception e then ([], [exn_str e, exn_trace e]) else ([], []))
      | Alive \<Rightarrow> ([], []))"

definition run_with_timeout ::
  "('s \<times> world \<Rightarrow> 'v outcome \<times> 's \<times> world) \<Rightarrow> nat \<Rightarrow> 's \<times> world \<Rightarrow>
     (exn + 'v option \<times> string list option) \<times> 's \<times> world" where
  "run_with_timeout func timeout_duration sw =
     (case thread_start_error (snd sw) of
        Some e \<Rightarrow> (Inl e, sw)
      | None \<Rightarrow>
          (case func sw of
             (out, sw') \<Rightarrow>
               (case target out of
                  (result, error) \<Rightarrow>
                    (case out of
                       Alive \<Rightarrow> (Inr (None, Some [timeout_message timeout_duration]), sw')
                     | _ \<Rightarrow>
                         if error \<noteq> [] then (Inr (None, Some error), sw')
                         else (Inr (case result of [] \<Rightarrow> None | r # _ \<Rightarrow> r, None), sw')))))"

subsection \<open>\<^verbatim>\<open>capture_output_and_files\<close>\<close>

text \<open>
  The variables of lines 67 to 69, which \<^verbatim>\<open>mock_input\<close> shares with its enclosing function.
  \<open>stdout_buffer\<close> is the text held by the \<^verbatim>\<open>StringIO\<close>; its position is always at the end.
\<close>

record capture_state =
  captured_lines :: "string list"
  input_idx :: nat
  stdout_buffer :: string

definition initial_capture_state :: capture_state where
  "initial_capture_state = \<lparr>captured_lines = [], input_idx = 0, stdout_buffer = []\<rparr>"

text \<open>Lines 74 to 92. \<^verbatim>\<open>seek(0)\<close> and \<^verbatim>\<open>truncate()\<close> leave the buffer empty.\<close>

definition mock_input :: "string list \<Rightarrow> string \<Rightarrow> capture_state \<Rightarrow> string \<times> capture_state" where
  "mock_input input_prompts prompt st =
     (let stdout_content = stdout_buffer st;
          st1 = (if stdout_content \<noteq> []
                 then st\<lparr>captured_lines := captured_lines st @ splitlines stdout_content,
                         stdout_buffer := []\<rparr>
                 else st);
          st2 = (if prompt \<noteq> []
                 then st1\<lparr>captured_lines := captured_lines st1 @ [rstrip prompt]\<rparr>
                 else st1)
      in if input_idx st2 < length input_prompts then
           (let val = input_prompts ! input_idx st2 in
            (val, st2\<lparr>captured_lines := captured_lines st2 @ [val],
                       input_idx := input_idx st2 + 1\<rparr>))
         else (''9'', st2))"

text \<open>
  The worker thread running \<^verbatim>\<open>module.main\<close> while \<^verbatim>\<open>sys.stdout\<close> is the buffer and
  \<^verbatim>\<open>builtins.input\<close> is \<^verbatim>\<open>mock_input\<close> (lines 95 and 98).
\<close>

primrec exec ::
  "string list \<Rightarrow> 'v prog \<Rightarrow> capture_state \<times> world \<Rightarrow> 'v outcome \<times> capture_state \<times> world" where
  "exec input_prompts (Write s k) =
     (\<lambda>(st, w). exec input_prompts k (st\<lparr>stdout_buffer := stdout_buffer st @ s\<rparr>, w))"
| "exec input_prompts (Input prompt k) =
     (\<lambda>(st, w). case mock_input input_prompts prompt st of
                   (val, st') \<Rightarrow> exec input_prompts (k val) (st', w))"
| "exec input_prompts (Files f k) =
     (\<lambda>(st, w). exec input_prompts k (st, w\<lparr>fs := f (fs w)\<rparr>))"
| "exec input_prompts (Return v) = (\<lambda>sw. (Returned v, sw))"
| "exec input_prompts (Raise e) = (\<lambda>sw. (Raised e, sw))"
| "exec input_prompts Running = (\<lambda>sw. (Alive, sw))"

text \<open>Lines 107 to 110: the remaining output is copied; the buffer is left as it is.\<close>

definition final_flush :: "capture_state \<Rightarrow> capture_state" where
  "final_flush st =
     (let final_output = stdout_buffer st in
      if final_output \<noteq> []
      then st\<lparr>captured_lines := captured_lines st @ splitlines final_output\<rparr>
      else st)"

definition no_main_message :: string where
  "no_main_message = ''Error: No main() function found in student'' @ [CHR 0x27] @ ''s code''"

text \<open>
  Lines 98 to 110, the body of the \<^verbatim>\<open>with\<close> statement. The result says which exception
  left it, if any.
\<close>

definition wrapped_phase ::
  "'v module \<Rightarrow> string list \<Rightarrow> capture_state \<times> world \<Rightarrow> exn option \<times> capture_state \<times> world" where
  "wrapped_phase module input_prompts sw =
     (case main_attr module of
        Some f \<Rightarrow>
          (case run_with_timeout (exec input_prompts f) 10 sw of
             (Inl e, sw') \<Rightarrow> (Some e, sw')
           | (Inr (_, error), (st, w)) \<Rightarrow>
               (None,
                final_flush
                  (case error of
                     Some lines \<Rightarrow>
                       (if lines \<noteq> [] then st\<lparr>captured_lines := captured_lines st @ lines\<rparr>
                        else st)
                   | None \<Rightarrow> st),
                w))
      | None \<Rightarrow>
          (case sw of
             (st, w) \<Rightarrow>
               (None, final_flush (st\<lparr>captured_lines := captured_lines st @ [no_main_message]\<rparr>), w)))"

text \<open>
  Lines 119 to 135: the new text files are moved into the project folder. The source
  walks a \<^verbatim>\<open>set\<close>, whose order Python leaves open; here it is the order of the listing.
  \<^verbatim>\<open>os.listdir\<close> does not fail in this model, so line 135 is never reached.
\<close>

definition txt_files :: "filesystem \<Rightarrow> string list" where
  "txt_files files = filter (\<lambda>f. endswith f ''.txt'') (os_listdir files)"

definition move_new_file :: "string \<Rightarrow> string \<Rightarrow> capture_state \<times> world \<Rightarrow> capture_state \<times> world" where
  "move_new_file folder_name txt_file sw =
     (case sw of
        (st, w) \<Rightarrow>
          if os_path_exists (fs w) txt_file then
            (case shutil_move (fs w) txt_file (os_path_join folder_name txt_file) of
               Inr files \<Rightarrow> (st, w\<lparr>fs := files\<rparr>)
             | Inl e \<Rightarrow>
                 (st\<lparr>captured_lines := captured_lines st
                        @ [''Error moving '' @ txt_file @ '': '' @ exn_str e]\<rparr>, w))
          else (st, w))"

definition harvest :: "string list \<Rightarrow> string \<Rightarrow> capture_state \<times> world \<Rightarrow> capture_state \<times> world" where
  "harvest initial_txt_files folder_name sw =
     (let current_txt_files = txt_files (fs (snd sw));
          new_txt_files = filter (\<lambda>f. f \<notin> set initial_txt_files \<and> f \<noteq> ''input.txt'')
                            current_txt_files
      in fold (move_new_file folder_name) new_txt_files sw)"

text \<open>
  Lines 112 to 114: the \<^verbatim>\<open>except Exception\<close> clause records an exception of that class
  that left the \<^verbatim>\<open>with\<close> statement; any other exception passes.
\<close>

definition except_clause :: "exn option \<Rightarrow> capture_state \<Rightarrow> capture_state" where
  "except_clause left st =
     (case left of
        Some e \<Rightarrow>
          (if is_Exception e
           then st\<lparr>captured_lines := captured_lines st
                      @ [''Error occurred: '' @ exn_str e, exn_trace e]\<rparr>
           else st)
      | None \<Rightarrow> st)"

text \<open>
  What leaves the function: the transcript (line 137), or the exception that the
  \<^verbatim>\<open>except\<close> clause let pass, once the \<^verbatim>\<open>finally\<close> block has run.
\<close>

definition capture_result :: "exn option \<Rightarrow> capture_state \<Rightarrow> exn + string list" where
  "capture_result left st =
     (case left of
        Some e \<Rightarrow> (if is_Exception e then Inr (captured_lines st) else Inl e)
      | None \<Rightarrow> Inr (captured_lines st))"

text \<open>Lines 65 to 137.\<close>

definition capture_output_and_files ::
  "'v module \<Rightarrow> string list \<Rightarrow> string \<Rightarrow> world \<Rightarrow> (exn + string list) \<times> world" where
  "capture_output_and_files module input_prompts folder_name w =
     (let st0 = initial_capture_state;
          initial_txt_files = txt_files (fs w);
          original_input = builtins_input w
      in case wrapped_phase module input_prompts (st0, w\<lparr>builtins_input := Mock_input\<rparr>) of
           (left, st1, w1) \<Rightarrow>
             (case harvest initial_txt_files folder_name
                     (except_clause left st1, w1\<lparr>builtins_input := original_input\<rparr>) of
                (st3, w3) \<Rightarrow> (capture_result left st3, w3)))"

subsection \<open>\<^verbatim>\<open>process_project\<close> and \<^verbatim>\<open>main\<close>\<close>

text \<open>
  Lines 170 to 180, the body of the inner \<^verbatim>\<open>try\<close> of the handler. \<open>folder\<close> is the local
  variable \<^verbatim>\<open>folder_name\<close>, which has no value when \<^verbatim>\<open>create_project_folder\<close> raised.
\<close>

definition archive_error :: "string \<Rightarrow> string option \<Rightarrow> exn \<Rightarrow> world \<Rightarrow> exn option \<times> world" where
  "archive_error project_file folder e w =
     (case folder of
        None \<Rightarrow> (Some (UnboundLocalError ''folder_name''), w)
      | Some folder_name \<Rightarrow>
          (case (if \<not> os_path_exists (fs w) folder_name then os_makedirs (fs w) folder_name
                 else Inr (fs w)) of
             Inl e1 \<Rightarrow> (Some e1, w)
           | Inr files1 \<Rightarrow>
               (case open_write files1 (os_path_join folder_name ''output.txt'')
                       (''Error processing project: '' @ exn_str e @ [LF] @ exn_trace e) of
                  Inl e2 \<Rightarrow> (Some e2, w\<lparr>fs := files1\<rparr>)
                | Inr files2 \<Rightarrow>
                    (case (if os_path_exists files2 project_file
                           then shutil_move files2 project_file
                                  (os_path_join folder_name project_file)
                           else Inr files2) of
                       Inl e3 \<Rightarrow> (Some e3, w\<lparr>fs := files2\<rparr>)
                     | Inr files3 \<Rightarrow> (None, w\<lparr>fs := files3\<rparr>)))))"

text \<open>
  Lines 165 to 182: what happens to an exception \<open>e\<close> raised in the \<^verbatim>\<open>try\<close> block of
  \<^verbatim>\<open>process_project\<close>. Both \<^verbatim>\<open>except\<close> clauses name the class \<^verbatim>\<open>Exception\<close>.
\<close>

definition process_project_except ::
  "string \<Rightarrow> string option \<Rightarrow> exn \<Rightarrow> world \<Rightarrow> status \<times> world" where
  "process_project_except project_file folder e w =
     (if is_Exception e then
        (case archive_error project_file folder e
                (py_print (''Failed to process '' @ project_file @ '': '' @ exn_str e) w) of
           (None, w') \<Rightarrow> (Done, w')
         | (Some move_error, w') \<Rightarrow>
             if is_Exception move_error
             then (Done, py_print (''Failed to handle error case: '' @ exn_str move_error) w')
             else (Escaped move_error, w'))
      else (Escaped e, w))"

text \<open>Lines 139 to 182.\<close>

definition process_project :: "'v interpreter \<Rightarrow> string \<Rightarrow> world \<Rightarrow> status \<times> world" where
  "process_project py project_file w =
     (case create_project_folder project_file w of
        (Inl e, w1) \<Rightarrow> process_project_except project_file None e w1
      | (Inr folder_name, w1) \<Rightarrow>
          (case import_student_module py project_file w1 of
             (Load_hangs, w2) \<Rightarrow> (Hung, w2)
           | (Load_raises e, w2) \<Rightarrow> process_project_except project_file (Some folder_name) e w2
           | (Loaded module, w2) \<Rightarrow>
               (case load_input_prompts w2 of
                  Inl e \<Rightarrow> process_project_except project_file (Some folder_name) e w2
                | Inr input_prompts \<Rightarrow>
                    (case capture_output_and_files module input_prompts folder_name w2 of
                       (Inl e, w3) \<Rightarrow>
                         process_project_except project_file (Some folder_name) e w3
                     | (Inr output, w3) \<Rightarrow>
                         (case open_write (fs w3) (os_path_join folder_name ''output.txt'')
                                 (join [LF] output) of
                            Inl e \<Rightarrow> process_project_except project_file (Some folder_name) e w3
                          | Inr files4 \<Rightarrow>
                              (case (if os_path_exists files4 project_file
                                     then shutil_move files4 project_file
                                            (os_path_join folder_name project_file)
                                     else Inr files4) of
                                 Inl e \<Rightarrow>
                                   process_project_except project_file (Some folder_name) e
                                     (w3\<lparr>fs := files4\<rparr>)
                               | Inr files5 \<Rightarrow>
                                   (Done,
                                    py_print (''Successfully processed '' @ project_file)
                                      (w3\<lparr>fs := files5\<rparr>))))))))"

text \<open>Lines 189 to 192, the loop over the submissions.\<close>

fun process_all :: "'v interpreter \<Rightarrow> string list \<Rightarrow> world \<Rightarrow> status \<times> world" where
  "process_all py [] w = (Done, w)"
| "process_all py (project_file # rest) w =
     (case process_project py project_file
             (py_print ([LF] @ ''Processing '' @ project_file @ ''...'') w) of
        (Done, w') \<Rightarrow> process_all py rest (py_print (''Completed processing '' @ project_file) w')
      | (Escaped e, w') \<Rightarrow> (Escaped e, w')
      | (Hung, w') \<Rightarrow> (Hung, w'))"

text \<open>Line 186.\<close>

definition python_files :: "world \<Rightarrow> string list" where
  "python_files w = filter (\<lambda>f. endswith f ''.py'' \<and> f \<noteq> ''grader.py'') (os_listdir (fs w))"

text \<open>Lines 184 to 192.\<close>

definition main :: "'v interpreter \<Rightarrow> world \<Rightarrow> status \<times> world" where
  "main py w =
     process_all py (python_files w)
       (py_print (''Found '' @ str_of_nat (length (python_files w)) @ '' Python files to process'') w)"

subsection \<open>Observing a run\<close>

text \<open>
  The values \<^verbatim>\<open>mock_input\<close> hands to the worker, call after call, while it runs \<open>prog\<close>
  from the capture state \<open>st\<close>: the state moves as in \<open>exec\<close>.
\<close>

primrec returned_values :: "string list \<Rightarrow> 'v prog \<Rightarrow> capture_state \<Rightarrow> string list" where
  "returned_values input_prompts (Write s k) =
     (\<lambda>st. returned_values input_prompts k (st\<lparr>stdout_buffer := stdout_buffer st @ s\<rparr>))"
| "returned_values input_prompts (Input prompt k) =
     (\<lambda>st. case mock_input input_prompts prompt st of
              (val, st') \<Rightarrow> val # returned_values input_prompts (k val) st')"
| "returned_values input_prompts (Files f k) = returned_values input_prompts k"
| "returned_values input_prompts (Return v) = (\<lambda>st. [])"
| "returned_values input_prompts (Raise e) = (\<lambda>st. [])"
| "returned_values input_prompts Running = (\<lambda>st. [])"

text \<open>
  A stretch of a run without a call of \<^verbatim>\<open>input\<close>: the worker writes to standard output or
  changes files. \<open>acts as k\<close> is the program that does \<open>as\<close> and goes on as \<open>k\<close>;
  \<open>output_of as\<close> is the text written, \<open>changes_of as\<close> the change to the working directory.
\<close>

datatype action = Wrote string | Changed "filesystem \<Rightarrow> filesystem"

fun acts :: "action list \<Rightarrow> 'v prog \<Rightarrow> 'v prog" where
  "acts [] k = k"
| "acts (Wrote s # as) k = Write s (acts as k)"
| "acts (Changed f # as) k = Files f (acts as k)"

fun output_of :: "action list \<Rightarrow> string" where
  "output_of [] = []"
| "output_of (Wrote s # as) = s @ output_of as"
| "output_of (Changed f # as) = output_of as"

fun changes_of :: "action list \<Rightarrow> filesystem \<Rightarrow> filesystem" where
  "changes_of [] files = files"
| "changes_of (Wrote s # as) files = changes_of as files"
| "changes_of (Changed f # as) files = changes_of as (f files)"









text \<open>
  The working directory \<open>files\<close>, as the load has left it, lets the pipeline archive the
  transcript of \<open>project_file\<close> in the folder \<open>d\<close>: \<^verbatim>\<open>input.txt\<close> is a regular file; the
  folder is a directory and \<^verbatim>\<open>output.txt\<close> in it is not; the submission is a regular file or
  gone; and where the submission's name is a directory in the folder, that directory has no
  entry of that name (\<^verbatim>\<open>shutil.move\<close> would refuse, and the handler of line 165 would
  overwrite the results).
\<close>

definition results_ready :: "filesystem \<Rightarrow> string \<Rightarrow> string \<Rightarrow> bool" where
  "results_ready files d project_file =
     ((case map_of files ''input.txt'' of Some (File content) \<Rightarrow> True | _ \<Rightarrow> False)
      \<and> map_of files d = Some Dir
      \<and> map_of files (d @ ''/output.txt'') \<noteq> Some Dir
      \<and> map_of files project_file \<noteq> Some Dir
      \<and> (map_of files (d @ ''/'' @ project_file) = Some Dir
           \<longrightarrow> map_of files (d @ ''/'' @ project_file @ ''/'' @ project_file) = None))"

text \<open>The working directory once \<^verbatim>\<open>create_project_folder\<close> has made sure of the folder \<open>d\<close>.\<close>

definition with_folder :: "filesystem \<Rightarrow> string \<Rightarrow> filesystem" where
  "with_folder files d = (if map_of files d = None then files @ [(d, Dir)] else files)"

subsection \<open>Example submissions and worlds\<close>

definition ValueError :: "string \<Rightarrow> exn" where
  "ValueError msg = raised ''ValueError'' msg"

text \<open>A working directory with nothing in it, and threads that start.\<close>

definition quiet_world :: world where
  "quiet_world =
     \<lparr>fs = [], console = [], builtins_input = Builtin_input, thread_start_error = None\<rparr>"

text \<open>\<^verbatim>\<open>def main(): sys.exit()\<close>\<close>

definition exits :: "nat prog" where
  "exits = Raise SystemExit"

text \<open>\<^verbatim>\<open>def main(): return 7\<close>, \<^verbatim>\<open>def main(): int('x')\<close> and \<^verbatim>\<open>def main(): time.sleep(60)\<close>\<close>

definition returns_seven :: "nat prog" where
  "returns_seven = Return (Some 7)"

definition fails :: "nat prog" where
  "fails = Raise (ValueError ''bad literal'')"

definition sleeps :: "nat prog" where
  "sleeps = Running"

text \<open>\<^verbatim>\<open>def main(): input('a: '); input('b: '); input('c: ')\<close>\<close>

definition asks_thrice :: "nat prog" where
  "asks_thrice = Input ''a: '' (\<lambda>a. Input ''b: '' (\<lambda>b. Input ''c: '' (\<lambda>c. Return None)))"

text \<open>An input script whose first line has blanks on both sides.\<close>

definition padded_script_world :: world where
  "padded_script_world =
     quiet_world\<lparr>fs := [(''input.txt'', File (''  5 '' @ [LF] @ ''3''))]\<rparr>"

text \<open>Exceptions for the controlling thread.\<close>

definition KeyboardInterrupt :: exn where
  "KeyboardInterrupt = Exn False [] (''KeyboardInterrupt'' @ [LF])"

definition RuntimeError :: "string \<Rightarrow> exn" where
  "RuntimeError msg = raised ''RuntimeError'' msg"

text \<open>Worlds in which \<^verbatim>\<open>Thread.start()\<close> raises in the controlling thread.\<close>

definition interrupted_world :: world where
  "interrupted_world = quiet_world\<lparr>thread_start_error := Some KeyboardInterrupt\<rparr>"

definition no_threads_world :: world where
  "no_threads_world =
     quiet_world\<lparr>thread_start_error := Some (RuntimeError ''can't start new thread'')\<rparr>"

text \<open>\<^verbatim>\<open>def main(): print('Welcome'); name = input('Name: '); print('Hello ' + name)\<close>\<close>

definition prints_then_asks :: "nat prog" where
  "prints_then_asks =
     Write (''Welcome'' @ [LF])
       (Input ''Name: '' (\<lambda>name. Write (''Hello '' @ name @ [LF]) (Return None)))"




text \<open>
  An interpreter for the source text \<^verbatim>\<open>print(1)\<close>: it prints and defines no \<^verbatim>\<open>main\<close>. A
  directory with one submission of that text and the input script.
\<close>

definition script_only :: "nat interpreter" where
  "script_only source files = (Loaded (Module None), files, [''1''])"

definition graded_world :: world where
  "graded_world =
     quiet_world\<lparr>fs := [(''hw2.py'', File ''print(1)''),
                         (''input.txt'', File (''5'' @ [LF] @ ''3''))]\<rparr>"

text \<open>The same directory without the input script, and with the folder's name taken by a file.\<close>

definition unscripted_world :: world where
  "unscripted_world = quiet_world\<lparr>fs := [(''hw2.py'', File ''print(1)'')]\<rparr>"

definition taken_world :: world where
  "taken_world =
     quiet_world\<lparr>fs := [(''hw2.py'', File ''print(1)''), (''hw2'', File ''notes''),
                         (''input.txt'', File (''5'' @ [LF] @ ''3''))]\<rparr>"

section \<open>Properties\<close>

subsection \<open>The mocked input function\<close>

lemma mock_input_value:
  "fst (mock_input ip p st) = (if input_idx st < length ip then ip ! input_idx st else ''9'')"
  by (simp add: mock_input_def Let_def)

lemma mock_input_idx:
  "input_idx (snd (mock_input ip p st)) =
     (if input_idx st < length ip then input_idx st + 1 else input_idx st)"
  by (simp add: mock_input_def Let_def)

lemma mock_input_lines:
  "captured_lines (snd (mock_input ip p st)) =
     captured_lines st @ splitlines (stdout_buffer st) @ (if p \<noteq> [] then [rstrip p] else [])
       @ (if input_idx st < length ip then [ip ! input_idx st] else [])"
  by (simp add: mock_input_def Let_def splitlines_def)


text \<open>The \<open>n\<close>-th value handed out is the script's line at the cursor, or the fallback past its end.\<close>

lemma returned_values_nth:
  "n < length (returned_values ip prog st) \<Longrightarrow>
     returned_values ip prog st ! n =
       (if input_idx st + n < length ip then ip ! (input_idx st + n) else ''9'')"
proof (induction prog arbitrary: st n)
  case (Input p k)
  obtain v st' where m: "mock_input ip p st = (v, st')" by (cases "mock_input ip p st")
  have v: "v = (if input_idx st < length ip then ip ! input_idx st else ''9'')"
    using mock_input_value [of ip p st] m by simp
  have i: "input_idx st' = (if input_idx st < length ip then input_idx st + 1 else input_idx st)"
    using mock_input_idx [of ip p st] m by simp
  show ?case
  proof (cases n)
    case 0
    then show ?thesis using m v by simp
  next
    case (Suc j)
    have "j < length (returned_values ip (k v) st')" using Input.prems m Suc by simp
    then have "returned_values ip (k v) st' ! j =
        (if input_idx st' + j < length ip then ip ! (input_idx st' + j) else ''9'')"
      using Input.IH [of "k v" j st'] by simp
    then show ?thesis using m Suc i by (auto split: if_splits)
  qed
qed simp_all

text \<open>
  Claim C2. A call of \<^verbatim>\<open>mock_input\<close> with the cursor \<open>i\<close> below the number \<open>N\<close> of scripted
  lines returns the \<open>i\<close>-th line, appends it to the transcript (after the flushed output and
  the prompt) and advances the cursor; a call with the cursor at or past \<open>N\<close> returns
  \<^verbatim>\<open>'9'\<close>, leaves the cursor where it is and appends nothing after the flushed output and the
  prompt. So a program that calls \<^verbatim>\<open>input()\<close> more than \<open>N\<close> times gets the \<open>N\<close> scripted lines
  and then \<^verbatim>\<open>'9'\<close> from call \<open>N + 1\<close>.
\<close>

theorem mock_input_replays_script:
  "(input_idx st < length input_prompts \<longrightarrow>
      fst (mock_input input_prompts prompt st) = input_prompts ! input_idx st
    \<and> input_idx (snd (mock_input input_prompts prompt st)) = input_idx st + 1
    \<and> captured_lines (snd (mock_input input_prompts prompt st)) =
        captured_lines st @ splitlines (stdout_buffer st)
          @ (if prompt \<noteq> [] then [rstrip prompt] else []) @ [input_prompts ! input_idx st])
 \<and> (length input_prompts \<le> input_idx st \<longrightarrow>
      fst (mock_input input_prompts prompt st) = ''9''
    \<and> input_idx (snd (mock_input input_prompts prompt st)) = input_idx st
    \<and> captured_lines (snd (mock_input input_prompts prompt st)) =
        captured_lines st @ splitlines (stdout_buffer st)
          @ (if prompt \<noteq> [] then [rstrip prompt] else []))
 \<and> (input_idx st = 0
      \<and> length input_prompts < length (returned_values input_prompts main_prog st) \<longrightarrow>
      take (length input_prompts) (returned_values input_prompts main_prog st) = input_prompts
    \<and> returned_values input_prompts main_prog st ! length input_prompts = ''9'')"
proof (intro conjI impI)
  assume h: "input_idx st = 0
    \<and> length input_prompts < length (returned_values input_prompts main_prog st)"
  show "returned_values input_prompts main_prog st ! length input_prompts = ''9''"
    using returned_values_nth [of "length input_prompts" input_prompts main_prog st] h by simp
  show "take (length input_prompts) (returned_values input_prompts main_prog st) = input_prompts"
  proof (rule nth_equalityI)
    show "length (take (length input_prompts) (returned_values input_prompts main_prog st))
        = length input_prompts"
      using h by simp
  next
    fix i
    assume "i < length (take (length input_prompts) (returned_values input_prompts main_prog st))"
    then have i: "i < length input_prompts" by simp
    then have "i < length (returned_values input_prompts main_prog st)" using h by simp
    then show "take (length input_prompts) (returned_values input_prompts main_prog st) ! i
        = input_prompts ! i"
      using returned_values_nth [of i input_prompts main_prog st] h i by simp
  qed
qed (simp_all add: mock_input_value mock_input_idx mock_input_lines)

theorem mock_input_replays_script_witness:
  "fst (mock_input [''5'', ''3''] ''a: '' initial_capture_state) = ''5''
   \<and> input_idx (snd (mock_input [''5'', ''3''] ''a: '' initial_capture_state)) = 1
   \<and> captured_lines (snd (mock_input [''5'', ''3''] ''a: '' initial_capture_state)) = [''a:'', ''5'']
   \<and> fst (mock_input [] ''a: '' initial_capture_state) = ''9''
   \<and> input_idx (snd (mock_input [] ''a: '' initial_capture_state)) = 0
   \<and> captured_lines (snd (mock_input [] ''a: '' initial_capture_state)) = [''a:'']
   \<and> returned_values [''5'', ''3''] asks_thrice initial_capture_state = [''5'', ''3'', ''9'']"
  using mock_input_replays_script [of initial_capture_state "[''5'', ''3'']" "''a: ''" asks_thrice]
    mock_input_replays_script [of initial_capture_state "[]" "''a: ''" asks_thrice]
  by (simp add: initial_capture_state_def asks_thrice_def mock_input_def Let_def splitlines_def
      rstrip_def isspace_def)

subsection \<open>The timeout-guarded executor\<close>

text \<open>
  Claim C1, amended. When the worker thread has started: a callable that returns within the
  timeout gives its value and no error; one that ends within the timeout by an exception
  of the class \<^verbatim>\<open>Exception\<close> gives no value and the two-element list of the message and the
  trace; one that is still running when the timeout ends gives no value and the one-element
  list of the timeout message.
\<close>

theorem run_with_timeout_outcomes:
  assumes "thread_start_error (snd sw) = None" and "func sw = (out, sw')"
  shows "(out = Returned v \<longrightarrow> run_with_timeout func timeout_duration sw = (Inr (v, None), sw'))
       \<and> (out = Raised e \<and> is_Exception e \<longrightarrow>
            run_with_timeout func timeout_duration sw
              = (Inr (None, Some [exn_str e, exn_trace e]), sw'))
       \<and> (out = Alive \<longrightarrow>
            run_with_timeout func timeout_duration sw
              = (Inr (None, Some [timeout_message timeout_duration]), sw'))"
  using assms by (simp add: run_with_timeout_def target_def)

theorem run_with_timeout_outcomes_witness:
  "fst (run_with_timeout (exec [] returns_seven) 10 (initial_capture_state, quiet_world))
     = Inr (Some 7, None)
   \<and> fst (run_with_timeout (exec [] fails) 10 (initial_capture_state, quiet_world))
     = Inr (None, Some [''bad literal'', exn_trace (ValueError ''bad literal'')])
   \<and> fst (run_with_timeout (exec [] sleeps) 10 (initial_capture_state, quiet_world))
     = Inr (None, Some [''Program execution timed out after 10 seconds''])"
  using
    run_with_timeout_outcomes [of "(initial_capture_state, quiet_world)" "exec [] returns_seven"
      "Returned (Some 7)" "(initial_capture_state, quiet_world)" "Some 7" 10]
    run_with_timeout_outcomes [of "(initial_capture_state, quiet_world)" "exec [] fails"
      "Raised (ValueError ''bad literal'')" "(initial_capture_state, quiet_world)" _ 10
      "ValueError ''bad literal''"]
    run_with_timeout_outcomes [of "(initial_capture_state, quiet_world)" "exec [] sleeps"
      Alive "(initial_capture_state, quiet_world)" _ 10]
  by (simp add: returns_seven_def fails_def sleeps_def quiet_world_def ValueError_def raised_def
      timeout_message_def)

text \<open>
  The claim as it stands fails for a callable that ends by \<^verbatim>\<open>sys.exit()\<close>: it finishes within
  the timeout and it raised, and the executor returns no value and no error.
\<close>

theorem run_with_timeout_raised_counterexample:
  "fst (run_with_timeout (exec [] exits) 10 (initial_capture_state, quiet_world))
     = Inr (None, None)
   \<and> fst (run_with_timeout (exec [] exits) 10 (initial_capture_state, quiet_world))
     \<noteq> Inr (None, Some [exn_str SystemExit, exn_trace SystemExit])"
  by (simp add: run_with_timeout_def target_def exits_def SystemExit_def quiet_world_def)

text \<open>
  Claim C9. A callable that ends within the timeout by an exception outside the class
  \<^verbatim>\<open>Exception\<close> leaves \<^verbatim>\<open>result\<close> and \<^verbatim>\<open>error\<close> empty, and \<^verbatim>\<open>run_with_timeout\<close> returns no
  value and no error: what it returns for a callable that returned \<^verbatim>\<open>None\<close>.
\<close>

theorem run_with_timeout_passes_over_base_exception:
  assumes "thread_start_error (snd sw) = None" and "func sw = (Raised e, sw')"
    and "\<not> is_Exception e"
  shows "target (Raised e :: 'v outcome) = ([], [])
       \<and> run_with_timeout func timeout_duration sw = (Inr (None :: 'v option, None), sw')
       \<and> (func' sw = (Returned None, sw') \<longrightarrow>
            run_with_timeout func' timeout_duration sw = run_with_timeout func timeout_duration sw)"
  using assms by (simp add: run_with_timeout_def target_def)

theorem run_with_timeout_passes_over_base_exception_witness:
  "run_with_timeout (exec [] exits) 10 (initial_capture_state, quiet_world)
     = (Inr (None, None), initial_capture_state, quiet_world)
   \<and> run_with_timeout (exec [] (Return None :: nat prog)) 10 (initial_capture_state, quiet_world)
     = run_with_timeout (exec [] exits) 10 (initial_capture_state, quiet_world)"
  using run_with_timeout_passes_over_base_exception
    [of "(initial_capture_state, quiet_world)" "exec [] exits" SystemExit
        "(initial_capture_state, quiet_world)" 10 "exec [] (Return None)"]
  by (simp add: exits_def SystemExit_def quiet_world_def)

subsection \<open>The project folder\<close>

text \<open>
  Claim C6. The folder name should be the file name without its trailing \<^verbatim>\<open>.py\<close>. For the
  submission \<^verbatim>\<open>hw1.py.py\<close> that is \<^verbatim>\<open>hw1.py\<close>; line 35 removes every \<^verbatim>\<open>.py\<close> and gives
  \<^verbatim>\<open>hw1\<close>, the folder of the submission \<^verbatim>\<open>hw1.py\<close>.
\<close>

theorem folder_name_of_removes_every_py:
  "folder_name_of ''hw1.py.py'' = ''hw1'' \<and> folder_name_of ''hw1.py'' = ''hw1''"
  by (simp add: folder_name_of_def)

subsection \<open>The input loader\<close>

lemma rstrip_decomp: "s = rstrip s @ rev (takeWhile isspace (rev s))"
proof -
  have "rev (takeWhile isspace (rev s) @ dropWhile isspace (rev s)) = s" by simp
  then have "rev (dropWhile isspace (rev s)) @ rev (takeWhile isspace (rev s)) = s"
    unfolding rev_append .
  then show ?thesis by (simp add: rstrip_def)
qed

lemma strip_decomp:
  "s = takeWhile isspace (rstrip s) @ strip s @ rev (takeWhile isspace (rev s))"
proof -
  have "rstrip s = takeWhile isspace (rstrip s) @ strip s"
    by (simp add: strip_def lstrip_def)
  then show ?thesis using rstrip_decomp [of s] by (metis append.assoc)
qed

lemma strip_no_leading: "strip s \<noteq> [] \<Longrightarrow> \<not> isspace (hd (strip s))"
  unfolding strip_def lstrip_def by (rule hd_dropWhile)

lemma rstrip_no_trailing: "rstrip s \<noteq> [] \<Longrightarrow> \<not> isspace (last (rstrip s))"
  unfolding rstrip_def by (simp add: last_rev hd_dropWhile)

lemma last_dropWhile: "dropWhile P xs \<noteq> [] \<Longrightarrow> last (dropWhile P xs) = last xs"
  by (induction xs) (auto split: if_splits)

lemma strip_no_trailing: "strip s \<noteq> [] \<Longrightarrow> \<not> isspace (last (strip s))"
proof -
  assume ne: "strip s \<noteq> []"
  then have "rstrip s \<noteq> []" by (auto simp: strip_def lstrip_def)
  moreover have "last (strip s) = last (rstrip s)"
    using ne unfolding strip_def lstrip_def by (rule last_dropWhile)
  ultimately show ?thesis using rstrip_no_trailing by simp
qed

lemma strip_spec:
  "\<exists>a b. l = a @ strip l @ b \<and> (\<forall>c\<in>set a. isspace c) \<and> (\<forall>c\<in>set b. isspace c)
     \<and> (strip l \<noteq> [] \<longrightarrow> \<not> isspace (hd (strip l)) \<and> \<not> isspace (last (strip l)))"
proof (intro exI conjI)
  show "l = takeWhile isspace (rstrip l) @ strip l @ rev (takeWhile isspace (rev l))"
    by (rule strip_decomp)
  show "\<forall>c\<in>set (takeWhile isspace (rstrip l)). isspace c"
    by (auto dest: set_takeWhileD)
  show "\<forall>c\<in>set (rev (takeWhile isspace (rev l))). isspace c"
    by (auto dest: set_takeWhileD)
  show "strip l \<noteq> [] \<longrightarrow> \<not> isspace (hd (strip l)) \<and> \<not> isspace (last (strip l))"
    using strip_no_leading strip_no_trailing by blast
qed

lemma concat_readlines: "concat (readlines s) = s"
  by (induction s) (auto split: list.splits)

lemma readlines_nonempty: "l \<in> set (readlines s) \<Longrightarrow> l \<noteq> []"
  by (induction s arbitrary: l) (auto split: if_splits list.splits)

lemma readlines_LF: "l \<in> set (readlines s) \<Longrightarrow> LF \<notin> set (butlast l)"
  by (induction s arbitrary: l) (auto split: if_splits list.splits)

lemma readlines_terminated:
  "Suc i < length (readlines s) \<Longrightarrow> last (readlines s ! i) = LF"
proof (induction s arbitrary: i)
  case Nil
  then show ?case by simp
next
  case (Cons c cs)
  show ?case
  proof (cases "c = LF")
    case True
    then show ?thesis using Cons by (cases i) auto
  next
    case False
    show ?thesis
    proof (cases "readlines cs")
      case Nil
      then show ?thesis using Cons.prems False by simp
    next
      case (Cons l ls)
      have len: "length (readlines (c # cs)) = length (readlines cs)"
        using False Cons by simp
      show ?thesis
      proof (cases i)
        case 0
        have "last (readlines cs ! 0) = LF" using Cons.IH [of 0] Cons.prems len 0 by simp
        moreover have "l \<noteq> []" using readlines_nonempty [of l cs] Cons by simp
        ultimately show ?thesis using False Cons 0 by simp
      next
        case (Suc j)
        then show ?thesis using Cons.IH [of i] Cons.prems len False Cons by simp
      qed
    qed
  qed
qed

text \<open>
  Claim C5, amended. When \<^verbatim>\<open>input.txt\<close> can be read, the loader returns one entry for each
  line of the file, in file order: the text is cut after every newline, and each entry is
  its line without the whitespace at both ends, the leading whitespace included.
\<close>

theorem load_input_prompts_strips_both_ends:
  assumes "map_of (fs w) ''input.txt'' = Some (File content)"
  shows "\<exists>lines. concat lines = universal_newlines content
       \<and> (\<forall>l\<in>set lines. l \<noteq> [] \<and> LF \<notin> set (butlast l))
       \<and> (\<forall>i. Suc i < length lines \<longrightarrow> last (lines ! i) = LF)
       \<and> load_input_prompts w = Inr (map strip lines)
       \<and> (\<forall>l\<in>set lines. \<exists>a b. l = a @ strip l @ b
             \<and> (\<forall>c\<in>set a. isspace c) \<and> (\<forall>c\<in>set b. isspace c)
             \<and> (strip l \<noteq> [] \<longrightarrow> \<not> isspace (hd (strip l)) \<and> \<not> isspace (last (strip l))))"
proof (intro exI conjI)
  let ?ls = "readlines (universal_newlines content)"
  show "concat ?ls = universal_newlines content" by (rule concat_readlines)
  show "\<forall>l\<in>set ?ls. l \<noteq> [] \<and> LF \<notin> set (butlast l)"
    using readlines_nonempty readlines_LF by blast
  show "\<forall>i. Suc i < length ?ls \<longrightarrow> last (?ls ! i) = LF"
    using readlines_terminated by blast
  show "load_input_prompts w = Inr (map strip ?ls)"
    using assms by (simp add: load_input_prompts_def open_read_def)
  show "\<forall>l\<in>set ?ls. \<exists>a b. l = a @ strip l @ b
             \<and> (\<forall>c\<in>set a. isspace c) \<and> (\<forall>c\<in>set b. isspace c)
             \<and> (strip l \<noteq> [] \<longrightarrow> \<not> isspace (hd (strip l)) \<and> \<not> isspace (last (strip l)))"
    using strip_spec by blast
qed

text \<open>
  The claim as it stands keeps leading whitespace. For the file \<^verbatim>\<open>"  5 \n3"\<close> that is the
  entry \<^verbatim>\<open>"  5"\<close>; line 23 calls \<^verbatim>\<open>strip()\<close> and gives \<^verbatim>\<open>"5"\<close>.
\<close>

theorem load_input_prompts_leading_whitespace_counterexample:
  "load_input_prompts padded_script_world = Inr [''5'', ''3'']
   \<and> map rstrip (readlines (universal_newlines (''  5 '' @ [LF] @ ''3''))) = [''  5'', ''3'']
   \<and> load_input_prompts padded_script_world
       \<noteq> Inr (map rstrip (readlines (universal_newlines (''  5 '' @ [LF] @ ''3''))))"
  by (simp add: load_input_prompts_def open_read_def padded_script_world_def quiet_world_def
      strip_def lstrip_def rstrip_def isspace_def)

theorem load_input_prompts_strips_both_ends_witness:
  "\<exists>lines. concat lines = ''  5 '' @ [LF] @ ''3''
       \<and> load_input_prompts padded_script_world = Inr (map strip lines)
       \<and> load_input_prompts padded_script_world = Inr [''5'', ''3'']"
proof -
  have f: "map_of (fs padded_script_world) ''input.txt'' = Some (File (''  5 '' @ [LF] @ ''3''))"
    by (simp add: padded_script_world_def quiet_world_def)
  have v: "load_input_prompts padded_script_world = Inr [''5'', ''3'']"
    by (simp add: load_input_prompts_def open_read_def padded_script_world_def quiet_world_def
      strip_def lstrip_def rstrip_def isspace_def)
  from load_input_prompts_strips_both_ends [OF f] obtain lines where
    "concat lines = universal_newlines (''  5 '' @ [LF] @ ''3'')"
    "load_input_prompts padded_script_world = Inr (map strip lines)" by blast
  then show ?thesis using v by (intro exI [of _ lines]) simp
qed

subsection \<open>What the capture phase leaves alone\<close>

lemma move_new_file_frame:
  "builtins_input (snd (move_new_file d f sw)) = builtins_input (snd sw)
   \<and> console (snd (move_new_file d f sw)) = console (snd sw)
   \<and> thread_start_error (snd (move_new_file d f sw)) = thread_start_error (snd sw)"
  by (cases sw) (simp add: move_new_file_def split: sum.splits)

lemma fold_move_new_file_frame:
  "builtins_input (snd (fold (move_new_file d) names sw)) = builtins_input (snd sw)
   \<and> console (snd (fold (move_new_file d) names sw)) = console (snd sw)
   \<and> thread_start_error (snd (fold (move_new_file d) names sw)) = thread_start_error (snd sw)"
  by (induction names arbitrary: sw) (simp_all add: move_new_file_frame)

lemma harvest_frame:
  "builtins_input (snd (harvest init d sw)) = builtins_input (snd sw)
   \<and> console (snd (harvest init d sw)) = console (snd sw)
   \<and> thread_start_error (snd (harvest init d sw)) = thread_start_error (snd sw)"
  by (simp add: harvest_def Let_def fold_move_new_file_frame)

lemma exec_frame:
  "builtins_input (snd (snd (exec ip prog sw))) = builtins_input (snd sw)
   \<and> console (snd (snd (exec ip prog sw))) = console (snd sw)
   \<and> thread_start_error (snd (snd (exec ip prog sw))) = thread_start_error (snd sw)"
proof (induction prog arbitrary: sw)
  case (Write s k)
  then show ?case by (cases sw) simp
next
  case (Input p k)
  then show ?case by (cases sw) (simp split: prod.splits)
next
  case (Files f k)
  then show ?case by (cases sw) simp
qed simp_all

lemma run_with_timeout_exec_frame:
  "builtins_input (snd (snd (run_with_timeout (exec ip prog) t sw))) = builtins_input (snd sw)
   \<and> console (snd (snd (run_with_timeout (exec ip prog) t sw))) = console (snd sw)
   \<and> thread_start_error (snd (snd (run_with_timeout (exec ip prog) t sw))) = thread_start_error (snd sw)"
  using exec_frame [of ip prog sw]
  by (cases "exec ip prog sw")
     (simp add: run_with_timeout_def split: option.splits prod.splits outcome.splits)

lemma wrapped_phase_frame:
  "builtins_input (snd (snd (wrapped_phase m ip sw))) = builtins_input (snd sw)
   \<and> console (snd (snd (wrapped_phase m ip sw))) = console (snd sw)
   \<and> thread_start_error (snd (snd (wrapped_phase m ip sw))) = thread_start_error (snd sw)"
proof (cases "main_attr m")
  case None
  then show ?thesis by (cases sw) (simp add: wrapped_phase_def)
next
  case (Some f)
  show ?thesis
    using run_with_timeout_exec_frame [of ip f 10 sw] Some
    by (cases "run_with_timeout (exec ip f) 10 sw")
       (auto simp: wrapped_phase_def split: sum.splits prod.splits)
qed

lemma capture_unfold:
  "wrapped_phase m ip (initial_capture_state, w\<lparr>builtins_input := Mock_input\<rparr>) = (left, st1, w1) \<Longrightarrow>
   capture_output_and_files m ip d w =
     (capture_result left (fst (harvest (txt_files (fs w)) d
          (except_clause left st1, w1\<lparr>builtins_input := builtins_input w\<rparr>))),
      snd (harvest (txt_files (fs w)) d
          (except_clause left st1, w1\<lparr>builtins_input := builtins_input w\<rparr>)))"
  by (simp add: capture_output_and_files_def Let_def split: prod.splits)

text \<open>
  Claim C7. Whatever the module, the script and the world, and however the wrapped phase
  ends (the entry point returns, raises, is still running at the timeout, or an exception
  is raised in the controlling thread and is caught by line 112 or passes), \<^verbatim>\<open>builtins.input\<close>
  is the mock at the end of the wrapped phase and is the original again when
  \<^verbatim>\<open>capture_output_and_files\<close> is left.
\<close>

theorem capture_restores_input:
  "builtins_input (snd (snd (wrapped_phase module input_prompts
        (initial_capture_state, w\<lparr>builtins_input := Mock_input\<rparr>)))) = Mock_input
   \<and> builtins_input (snd (capture_output_and_files module input_prompts folder_name w))
       = builtins_input w"
proof
  show "builtins_input (snd (snd (wrapped_phase module input_prompts
        (initial_capture_state, w\<lparr>builtins_input := Mock_input\<rparr>)))) = Mock_input"
    by (simp add: wrapped_phase_frame)
next
  obtain left st1 w1 where wp: "wrapped_phase module input_prompts
        (initial_capture_state, w\<lparr>builtins_input := Mock_input\<rparr>) = (left, st1, w1)"
    by (cases "wrapped_phase module input_prompts
        (initial_capture_state, w\<lparr>builtins_input := Mock_input\<rparr>)") auto
  show "builtins_input (snd (capture_output_and_files module input_prompts folder_name w))
       = builtins_input w"
    by (simp add: capture_unfold [OF wp] harvest_frame)
qed

theorem capture_restores_input_witness:
  "capture_output_and_files (Module (Some prints_then_asks)) [''Ada''] ''hw1'' interrupted_world
     = (Inl KeyboardInterrupt, interrupted_world)
   \<and> fst (capture_output_and_files (Module (Some prints_then_asks)) [''Ada''] ''hw1''
            no_threads_world)
     = Inr [''Error occurred: can't start new thread'',
            exn_trace (RuntimeError ''can't start new thread'')]
   \<and> builtins_input (snd (capture_output_and_files (Module (Some prints_then_asks)) [''Ada'']
         ''hw1'' interrupted_world)) = Builtin_input
   \<and> builtins_input (snd (capture_output_and_files (Module (Some prints_then_asks)) [''Ada'']
         ''hw1'' no_threads_world)) = Builtin_input
   \<and> builtins_input (snd (capture_output_and_files (Module (Some sleeps)) [''Ada'']
         ''hw1'' quiet_world)) = Builtin_input"
proof -
  have a: "capture_output_and_files (Module (Some prints_then_asks)) [''Ada''] ''hw1''
      interrupted_world = (Inl KeyboardInterrupt, interrupted_world)"
    by code_simp
  have b: "fst (capture_output_and_files (Module (Some prints_then_asks)) [''Ada''] ''hw1''
            no_threads_world)
     = Inr [''Error occurred: can't start new thread'',
            exn_trace (RuntimeError ''can't start new thread'')]"
    by code_simp
  show ?thesis
    using a b
      capture_restores_input [of "Module (Some prints_then_asks)" "[''Ada'']" interrupted_world
        "''hw1''"]
      capture_restores_input [of "Module (Some prints_then_asks)" "[''Ada'']" no_threads_world
        "''hw1''"]
      capture_restores_input [of "Module (Some sleeps)" "[''Ada'']" quiet_world "''hw1''"]
    by (simp add: interrupted_world_def no_threads_world_def quiet_world_def)
qed

subsection \<open>The transcript of a run\<close>

lemma exec_acts:
  "exec ip (acts as k) (st, w) =
     exec ip k (st\<lparr>stdout_buffer := stdout_buffer st @ output_of as\<rparr>,
                w\<lparr>fs := changes_of as (fs w)\<rparr>)"
proof (induction as arbitrary: st w)
  case Nil
  then show ?case by simp
next
  case (Cons a as)
  then show ?case by (cases a) simp_all
qed

lemma move_new_file_lines:
  "\<exists>errs. captured_lines (fst (move_new_file d f sw)) = captured_lines (fst sw) @ errs
     \<and> (\<forall>l\<in>set errs. prefix ''Error moving '' l)"
  by (cases sw) (simp add: move_new_file_def split: sum.splits)

lemma fold_move_new_file_lines:
  "\<exists>errs. captured_lines (fst (fold (move_new_file d) names sw)) = captured_lines (fst sw) @ errs
     \<and> (\<forall>l\<in>set errs. prefix ''Error moving '' l)"
proof (induction names arbitrary: sw)
  case Nil
  then show ?case by simp
next
  case (Cons f names)
  obtain e1 where e1: "captured_lines (fst (move_new_file d f sw)) = captured_lines (fst sw) @ e1"
    "\<forall>l\<in>set e1. prefix ''Error moving '' l"
    using move_new_file_lines [of d f sw] by blast
  obtain e2 where e2: "captured_lines (fst (fold (move_new_file d) names (move_new_file d f sw)))
      = captured_lines (fst (move_new_file d f sw)) @ e2"
    "\<forall>l\<in>set e2. prefix ''Error moving '' l"
    using Cons.IH [of "move_new_file d f sw"] by blast
  show ?case
  proof (intro exI conjI)
    show "captured_lines (fst (fold (move_new_file d) (f # names) sw))
        = captured_lines (fst sw) @ (e1 @ e2)"
      using e1 e2 by simp
    show "\<forall>l\<in>set (e1 @ e2). prefix ''Error moving '' l" using e1 e2 by auto
  qed
qed

lemma harvest_lines:
  "\<exists>errs. captured_lines (fst (harvest init d sw)) = captured_lines (fst sw) @ errs
     \<and> (\<forall>l\<in>set errs. prefix ''Error moving '' l)"
  unfolding harvest_def Let_def by (rule fold_move_new_file_lines)

lemma wrapped_phase_one_input:
  assumes "thread_start_error w = None" and "input_prompts \<noteq> []"
    and "main_attr module = Some (acts pre (Input prompt k))"
    and "k (hd input_prompts) = acts post (Return r)"
  shows "fst (wrapped_phase module input_prompts (initial_capture_state, w)) = None
     \<and> captured_lines (fst (snd (wrapped_phase module input_prompts (initial_capture_state, w))))
       = splitlines (output_of pre) @ (if prompt \<noteq> [] then [rstrip prompt] else []) @ [hd input_prompts]
           @ splitlines (output_of post)
     \<and> snd (snd (wrapped_phase module input_prompts (initial_capture_state, w)))
       = w\<lparr>fs := changes_of post (changes_of pre (fs w))\<rparr>"
proof -
  let ?st1 = "initial_capture_state\<lparr>stdout_buffer := output_of pre\<rparr>"
  let ?w1 = "w\<lparr>fs := changes_of pre (fs w)\<rparr>"
  have m: "mock_input input_prompts prompt ?st1 =
      (hd input_prompts,
       \<lparr>captured_lines = splitlines (output_of pre) @ (if prompt \<noteq> [] then [rstrip prompt] else []) @ [hd input_prompts],
        input_idx = 1, stdout_buffer = []\<rparr>)"
    using assms(2)
    by (cases input_prompts)
       (simp_all add: mock_input_def Let_def initial_capture_state_def splitlines_def)
  have e: "exec input_prompts (acts pre (Input prompt k)) (initial_capture_state, w) =
      (Returned r,
       \<lparr>captured_lines = splitlines (output_of pre) @ (if prompt \<noteq> [] then [rstrip prompt] else []) @ [hd input_prompts],
        input_idx = 1, stdout_buffer = output_of post\<rparr>,
       ?w1\<lparr>fs := changes_of post (fs ?w1)\<rparr>)"
    using m assms(4)
    by (simp add: exec_acts initial_capture_state_def)
  show ?thesis
    using assms(1,3) e
    by (simp add: wrapped_phase_def run_with_timeout_def target_def final_flush_def Let_def
        splitlines_def)
qed

lemma harvest_nothing_new:
  "fs (snd sw) = files \<Longrightarrow> harvest (txt_files files) d sw = sw"
  by (simp add: harvest_def Let_def)

text \<open>
  Claim C3, amended. Take a submission whose entry point returns normally and calls
  \<^verbatim>\<open>input()\<close> once: it does \<open>pre\<close>, asks with \<open>prompt\<close>, and on the first scripted line
  does \<open>post\<close> and returns. With a script that has a line, the transcript is, in this
  order: the lines of the output before the call, the prompt without its trailing
  whitespace (if the prompt is not empty), the scripted line, the lines of the output after
  the call; behind them stand only the reports of new text files that could not be moved,
  and none when the program leaves the files as they were.
\<close>

theorem capture_one_input_transcript:
  assumes "thread_start_error w = None" and "input_prompts \<noteq> []"
    and "main_attr module = Some (acts pre (Input prompt k))"
    and "k (hd input_prompts) = acts post (Return r)"
  shows "\<exists>moved. fst (capture_output_and_files module input_prompts folder_name w) =
           Inr (splitlines (output_of pre) @ (if prompt \<noteq> [] then [rstrip prompt] else [])
                @ [hd input_prompts] @ splitlines (output_of post) @ moved)
         \<and> (\<forall>l\<in>set moved. prefix ''Error moving '' l)
         \<and> (changes_of post (changes_of pre (fs w)) = fs w \<longrightarrow> moved = [])"
proof -
  let ?w0 = "w\<lparr>builtins_input := Mock_input\<rparr>"
  let ?t = "splitlines (output_of pre) @ (if prompt \<noteq> [] then [rstrip prompt] else []) @ [hd input_prompts]
           @ splitlines (output_of post)"
  obtain left st1 w1 where wp:
    "wrapped_phase module input_prompts (initial_capture_state, ?w0) = (left, st1, w1)"
    by (cases "wrapped_phase module input_prompts (initial_capture_state, ?w0)") auto
  have "thread_start_error ?w0 = None" using assms(1) by simp
  from wrapped_phase_one_input [OF this assms(2,3,4)] wp
  have left: "left = None" and lines: "captured_lines st1 = ?t"
    and w1: "w1 = ?w0\<lparr>fs := changes_of post (changes_of pre (fs ?w0))\<rparr>" by simp_all
  let ?h = "harvest (txt_files (fs w)) folder_name
              (except_clause left st1, w1\<lparr>builtins_input := builtins_input w\<rparr>)"
  obtain moved where mv: "captured_lines (fst ?h) = captured_lines (except_clause left st1) @ moved"
      "\<forall>l\<in>set moved. prefix ''Error moving '' l"
    using harvest_lines [of "txt_files (fs w)" folder_name
        "(except_clause left st1, w1\<lparr>builtins_input := builtins_input w\<rparr>)"] by auto
  have res: "fst (capture_output_and_files module input_prompts folder_name w) = Inr (?t @ moved)"
    using capture_unfold [OF wp, of folder_name] left lines mv(1)
    by (simp add: capture_result_def except_clause_def)
  have no_moves: "changes_of post (changes_of pre (fs w)) = fs w \<longrightarrow> moved = []"
  proof
    assume same: "changes_of post (changes_of pre (fs w)) = fs w"
    have "fs w1 = fs w" using w1 same by simp
    then have "?h = (except_clause left st1, w1\<lparr>builtins_input := builtins_input w\<rparr>)"
      by (simp add: harvest_nothing_new)
    then show "moved = []" using mv(1) by simp
  qed
  show ?thesis
  proof (intro exI conjI)
    show "fst (capture_output_and_files module input_prompts folder_name w) =
           Inr (splitlines (output_of pre) @ (if prompt \<noteq> [] then [rstrip prompt] else [])
                @ [hd input_prompts] @ splitlines (output_of post) @ moved)"
      using res by simp
    show "\<forall>l\<in>set moved. prefix ''Error moving '' l" by (rule mv(2))
    show "changes_of post (changes_of pre (fs w)) = fs w \<longrightarrow> moved = []" by (rule no_moves)
  qed
qed

theorem capture_one_input_transcript_witness:
  "fst (capture_output_and_files (Module (Some prints_then_asks)) [''Ada''] ''hw1'' quiet_world)
     = Inr [''Welcome'', ''Name:'', ''Ada'', ''Hello Ada'']"
proof -
  have p: "main_attr (Module (Some prints_then_asks))
      = Some (acts [Wrote (''Welcome'' @ [LF])]
          (Input ''Name: '' (\<lambda>name. Write (''Hello '' @ name @ [LF]) (Return None))))"
    by (simp add: prints_then_asks_def)
  have k: "(\<lambda>name. Write (''Hello '' @ name @ [LF]) (Return None)) (hd [''Ada''])
      = acts [Wrote (''Hello Ada'' @ [LF])] (Return (None :: nat option))"
    by simp
  have t: "thread_start_error quiet_world = None" and s: "[''Ada''] \<noteq> []"
    by (simp_all add: quiet_world_def)
  from capture_one_input_transcript [OF t s p k, of "''hw1''"]
  show ?thesis by (simp add: splitlines_def is_linebreak_def rstrip_def isspace_def)
qed

text \<open>
  The claim as it stands puts the prompt text into the transcript. For the prompt
  \<^verbatim>\<open>'Name: '\<close> the transcript holds \<^verbatim>\<open>'Name:'\<close>: line 85 appends \<^verbatim>\<open>prompt.rstrip()\<close>.
\<close>

theorem capture_prompt_text_counterexample:
  "fst (capture_output_and_files (Module (Some prints_then_asks)) [''Ada''] ''hw1'' quiet_world)
     = Inr [''Welcome'', ''Name:'', ''Ada'', ''Hello Ada'']
   \<and> ''Name: '' \<notin> set [''Welcome'', ''Name:'', ''Ada'', ''Hello Ada'']"
  by code_simp

subsection \<open>Flushing the captured output\<close>










subsection \<open>Errors of the per-submission pipeline\<close>

lemma raised_is_Exception [simp]: "is_Exception (raised cls msg)"
  by (simp add: raised_def)





























subsection \<open>Paths and the results file\<close>

lemma str_replace_subset: "set (str_replace old [] s) \<subseteq> set s"
proof (induction old "[] :: string" s rule: str_replace.induct)
  case (1 old)
  then show ?case by simp
next
  case (2 old c cs)
  show ?case
  proof (cases "old = []")
    case True
    then show ?thesis using 2 by auto
  next
    case False
    show ?thesis
    proof (cases "prefix old (c # cs)")
      case True
      have "set (drop (length old) (c # cs)) \<subseteq> set (c # cs)" by (rule set_drop_subset)
      then show ?thesis using 2 False True by auto
    next
      case no: False
      then show ?thesis using 2 False by auto
    qed
  qed
qed

lemma folder_name_no_slash:
  "CHR ''/'' \<notin> set pf \<Longrightarrow> CHR ''/'' \<notin> set (folder_name_of pf)"
  using str_replace_subset [of "''.py''" pf] by (auto simp: folder_name_of_def)

lemma endswith_slash: "endswith a ''/'' \<longleftrightarrow> a \<noteq> [] \<and> last a = CHR ''/''"
proof (cases a rule: rev_cases)
  case Nil
  then show ?thesis by (simp add: endswith_def)
next
  case (snoc as x)
  then show ?thesis by (simp add: endswith_def)
qed

lemma os_path_join_plain:
  "a \<noteq> [] \<Longrightarrow> last a \<noteq> CHR ''/'' \<Longrightarrow> CHR ''/'' \<notin> set n \<Longrightarrow>
     os_path_join a n = a @ ''/'' @ n"
  by (cases n) (auto simp: os_path_join_def endswith_slash)

lemma os_path_basename_plain:
  assumes "CHR ''/'' \<notin> set n"
  shows "os_path_basename n = n"
proof -
  have "takeWhile (\<lambda>c. c \<noteq> CHR ''/'') (rev n) = rev n"
    by (rule takeWhile_eq_all_conv [THEN iffD2]) (use assms in auto)
  then show ?thesis unfolding os_path_basename_def by (simp only: rev_rev_ident)
qed

lemma os_path_dirname_join:
  assumes "a \<noteq> []" and "last a \<noteq> CHR ''/''" and "CHR ''/'' \<notin> set n"
  shows "os_path_dirname (a @ ''/'' @ n) = a"
proof -
  have d: "dropWhile (\<lambda>c. c \<noteq> CHR ''/'') (rev n @ CHR ''/'' # rev a) = CHR ''/'' # rev a"
    using assms(3) by (subst dropWhile_append2) auto
  have head: "rev (dropWhile (\<lambda>c. c \<noteq> CHR ''/'') (rev (a @ ''/'' @ n))) = a @ ''/''"
    using d by simp
  have ne: "a @ ''/'' \<noteq> replicate (length (a @ ''/'')) (CHR ''/'')"
  proof
    assume "a @ ''/'' = replicate (length (a @ ''/'')) (CHR ''/'')"
    then have "set (a @ ''/'') \<subseteq> {CHR ''/''}" by (metis set_replicate_conv_if subset_refl empty_subsetI)
    then have "last a = CHR ''/''" using assms(1) last_in_set by fastforce
    then show False using assms(2) by simp
  qed
  have "hd (rev a) \<noteq> CHR ''/''" using assms(1,2) by (simp add: hd_rev)
  then have s: "dropWhile (\<lambda>c. c = CHR ''/'') (rev a) = rev a"
    using assms(1) by (cases "rev a") auto
  show ?thesis
    unfolding os_path_dirname_def head Let_def using ne s by simp
qed

lemma last_no_slash: "n \<noteq> [] \<Longrightarrow> CHR ''/'' \<notin> set n \<Longrightarrow> last n \<noteq> CHR ''/''"
  using last_in_set by fastforce

lemma map_of_renamed:
  assumes "t \<noteq> s" and "t \<noteq> d" and "\<not> prefix (s @ ''/'') t" and "\<not> prefix (d @ ''/'') t"
  shows "map_of (map (\<lambda>(p, n). (rename_path s d p, n)) (filter (\<lambda>(p, n). p \<noteq> d) files)) t
       = map_of files t"
proof -
  have key: "rename_path s d p = t \<longleftrightarrow> p = t" for p
  proof
    assume r: "rename_path s d p = t"
    show "p = t"
    proof (cases "p = s")
      case True
      then show ?thesis using r assms(2) by (simp add: rename_path_def)
    next
      case False
      show ?thesis
      proof (cases "prefix (s @ ''/'') p")
        case True
        then obtain z where "p = (s @ ''/'') @ z" by (auto simp: prefix_def)
        then have "rename_path s d p = d @ ''/'' @ z" using False by (simp add: rename_path_def)
        then have "prefix (d @ ''/'') t" using r by (auto simp: prefix_def)
        then show ?thesis using assms(4) by simp
      next
        case no: False
        then show ?thesis using r False by (simp add: rename_path_def)
      qed
    qed
  next
    assume "p = t"
    then show "rename_path s d p = t" using assms(1,3) by (simp add: rename_path_def)
  qed
  show ?thesis
  proof (induction files)
    case Nil
    then show ?case by simp
  next
    case (Cons x files)
    obtain p n where x: "x = (p, n)" by (cases x)
    show ?case using Cons x key [of p] assms(2) by auto
  qed
qed

lemma capture_without_main:
  assumes "main_attr m = None"
  shows "capture_output_and_files m ip d w = (Inr [no_main_message], w)"
proof -
  have wp: "wrapped_phase m ip (initial_capture_state, w\<lparr>builtins_input := Mock_input\<rparr>)
      = (None, initial_capture_state\<lparr>captured_lines := [no_main_message]\<rparr>,
         w\<lparr>builtins_input := Mock_input\<rparr>)"
    using assms by (simp add: wrapped_phase_def final_flush_def initial_capture_state_def)
  show ?thesis
    by (simp add: capture_unfold [OF wp] harvest_nothing_new except_clause_def
        capture_result_def)
qed

lemma first_slash:
  assumes "CHR ''/'' \<notin> set a" and "CHR ''/'' \<notin> set b"
    and "prefix (a @ CHR ''/'' # x) (b @ CHR ''/'' # y)"
  shows "a = b"
proof -
  obtain z where z: "b @ CHR ''/'' # y = (a @ CHR ''/'' # x) @ z"
    using assms(3) by (auto simp: prefix_def)
  have "takeWhile (\<lambda>c. c \<noteq> CHR ''/'') (b @ CHR ''/'' # y) = b"
    using assms(2) by (subst takeWhile_append2) auto
  moreover have "takeWhile (\<lambda>c. c \<noteq> CHR ''/'') ((a @ CHR ''/'' # x) @ z) = a"
    using assms(1) by (simp only: append_assoc append_Cons, subst takeWhile_append2) auto
  ultimately show ?thesis using z by simp
qed

lemma os_path_dirname_plain:
  assumes "CHR ''/'' \<notin> set n"
  shows "os_path_dirname n = []"
proof -
  have "dropWhile (\<lambda>c. c \<noteq> CHR ''/'') (rev n) = []" using assms by auto
  then show ?thesis by (simp add: os_path_dirname_def)
qed

lemma output_txt_no_slash: "''output.txt'' = a @ ''/'' @ b \<Longrightarrow> False"
proof -
  assume eq: "''output.txt'' = a @ ''/'' @ b"
  have "CHR ''/'' \<in> set (a @ ''/'' @ b)" by simp
  then have "CHR ''/'' \<in> set ''output.txt''" unfolding eq [symmetric] .
  then show False by simp
qed

lemma not_prefix_output_txt: "\<not> prefix (a @ ''/'' @ z) ''output.txt''"
proof
  assume "prefix (a @ ''/'' @ z) ''output.txt''"
  then obtain r where "''output.txt'' = (a @ ''/'' @ z) @ r" unfolding prefix_def by blast
  then have "''output.txt'' = a @ ''/'' @ (z @ r)" by simp
  then show False by (rule output_txt_no_slash)
qed

lemma py_not_output_txt: "endswith pf ''.py'' \<Longrightarrow> pf \<noteq> ''output.txt''"
  by (auto simp: endswith_def)

lemma endswith_nonempty: "endswith pf ''.py'' \<Longrightarrow> pf \<noteq> []"
  by (auto simp: endswith_def)

lemma map_of_with_folder:
  "map_of files d = None \<or> map_of files d = Some Dir \<Longrightarrow>
     map_of (with_folder files d) p = (if p = d then Some Dir else map_of files p)"
  by (auto simp: with_folder_def map_add_def split: option.splits)

lemma create_project_folder_usable:
  assumes "CHR ''/'' \<notin> set pf" and "folder_name_of pf \<noteq> []"
    and "map_of (fs w) (folder_name_of pf) = None \<or> map_of (fs w) (folder_name_of pf) = Some Dir"
  shows "create_project_folder pf w
       = (Inr (folder_name_of pf), w\<lparr>fs := with_folder (fs w) (folder_name_of pf)\<rparr>)"
proof -
  have ns: "CHR ''/'' \<notin> set (folder_name_of pf)" using assms(1) by (rule folder_name_no_slash)
  have dn: "os_path_dirname (folder_name_of pf) = []" using ns by (rule os_path_dirname_plain)
  show ?thesis
  proof (cases "map_of (fs w) (folder_name_of pf)")
    case None
    then have "os_makedirs (fs w) (folder_name_of pf) = Inr (fs w @ [(folder_name_of pf, Dir)])"
      using assms(2) by (simp add: os_makedirs_def os_path_exists_def parent_ok_def dn)
    then show ?thesis using None
      by (simp add: create_project_folder_def Let_def os_path_exists_def with_folder_def)
  next
    case (Some n)
    then show ?thesis
      by (simp add: create_project_folder_def Let_def os_path_exists_def with_folder_def)
  qed
qed

lemma open_write_results:
  assumes "d \<noteq> []" and "CHR ''/'' \<notin> set d"
    and "map_of files d = Some Dir" and "map_of files (d @ ''/output.txt'') \<noteq> Some Dir"
  shows "open_write files (os_path_join d ''output.txt'') c
       = Inr (AList.update (d @ ''/output.txt'') (File c) files)"
proof -
  have l: "last d \<noteq> CHR ''/''" using assms(1,2) by (rule last_no_slash)
  have j: "os_path_join d ''output.txt'' = d @ ''/output.txt''"
    using os_path_join_plain [OF assms(1) l, of "''output.txt''"] by simp
  have dir: "os_path_dirname (d @ ''/output.txt'') = d"
    using os_path_dirname_join [OF assms(1) l, of "''output.txt''"] by simp
  show ?thesis
    unfolding j using assms(3,4)
    by (simp add: open_write_def os_path_isdir_def parent_ok_def dir)
qed

lemma shutil_move_keeps_results:
  assumes nm: "CHR ''/'' \<notin> set pf" "pf \<noteq> []" "pf \<noteq> ''output.txt''"
    and d: "d \<noteq> []" "CHR ''/'' \<notin> set d" "pf \<noteq> d"
    and src: "map_of files pf = Some (File source)"
    and dir: "map_of files d = Some Dir"
    and nested: "map_of files (d @ ''/'' @ pf) = Some Dir
                   \<longrightarrow> map_of files (d @ ''/'' @ pf @ ''/'' @ pf) = None"
  shows "\<exists>files4. shutil_move files pf (os_path_join d pf) = Inr files4
           \<and> map_of files4 (d @ ''/output.txt'') = map_of files (d @ ''/output.txt'')"
proof -
  let ?t = "d @ ''/output.txt''"
  let ?dst = "d @ ''/'' @ pf"
  have d_last: "last d \<noteq> CHR ''/''" using d(1,2) by (rule last_no_slash)
  have pf_last: "last pf \<noteq> CHR ''/''" using nm(2,1) by (rule last_no_slash)
  have j_dst: "os_path_join d pf = ?dst" using os_path_join_plain [OF d(1) d_last nm(1)] by simp
  have dir_dst: "os_path_dirname ?dst = d" using os_path_dirname_join [OF d(1) d_last nm(1)] by simp
  have pf_t: "?t \<noteq> pf" using nm(1) by auto
  have ex: "os_path_exists files pf" using src by (simp add: os_path_exists_def)
  have src_file: "\<not> os_path_isdir files pf" using src by (simp add: os_path_isdir_def)
  have np1: "\<not> prefix (pf @ ''/'') ?t"
  proof
    assume "prefix (pf @ ''/'') ?t"
    then have "prefix (pf @ CHR ''/'' # []) (d @ CHR ''/'' # ''output.txt'')" by simp
    then have "pf = d" using first_slash [OF nm(1) d(2)] by blast
    then show False using d(3) by simp
  qed
  have np2: "\<not> prefix (?dst @ ''/'' @ z) ?t" for z
  proof
    assume "prefix (?dst @ ''/'' @ z) ?t"
    then have "prefix (pf @ ''/'' @ z) ''output.txt''" by simp
    then show False using not_prefix_output_txt by blast
  qed
  show ?thesis
  proof (cases "map_of files ?dst = Some Dir")
    case True
    let ?real = "?dst @ ''/'' @ pf"
    have dst_ne: "?dst \<noteq> []" using d(1) by simp
    have dst_last: "last ?dst \<noteq> CHR ''/''" using pf_last nm(2) by simp
    have real: "os_path_join ?dst (os_path_basename pf) = ?real"
      using os_path_join_plain [OF dst_ne dst_last nm(1)]
      by (simp add: os_path_basename_plain [OF nm(1)])
    have free: "map_of files ?real = None" using nested True by simp
    have real_t: "?t \<noteq> ?real"
    proof
      assume "?t = ?real"
      then have "''output.txt'' = pf @ ''/'' @ pf" by simp
      then show False by (rule output_txt_no_slash)
    qed
    have dir_real: "os_path_dirname ?real = ?dst"
      using os_path_dirname_join [OF dst_ne dst_last nm(1)] by simp
    have rn: "os_rename files pf ?real
        = Inr (map (\<lambda>(p, n). (rename_path pf ?real p, n)) (filter (\<lambda>(p, n). p \<noteq> ?real) files))"
      using ex src_file free True dir_real
      by (simp add: os_rename_def parent_ok_def os_path_isdir_def)
    have mv: "shutil_move files pf ?dst
        = Inr (map (\<lambda>(p, n). (rename_path pf ?real p, n)) (filter (\<lambda>(p, n). p \<noteq> ?real) files))"
      using True free rn real
      by (simp add: shutil_move_def Let_def os_path_isdir_def os_path_exists_def)
    have p2: "\<not> prefix (?real @ ''/'') ?t" using np2 [of "pf @ ''/''"] by simp
    have "map_of (map (\<lambda>(p, n). (rename_path pf ?real p, n))
        (filter (\<lambda>(p, n). p \<noteq> ?real) files)) ?t = map_of files ?t"
      using pf_t real_t np1 p2 by (rule map_of_renamed)
    then show ?thesis unfolding j_dst using mv by simp
  next
    case False
    have dst_t: "?t \<noteq> ?dst" using nm(3) by simp
    have rn: "os_rename files pf ?dst
        = Inr (map (\<lambda>(p, n). (rename_path pf ?dst p, n)) (filter (\<lambda>(p, n). p \<noteq> ?dst) files))"
      using ex src_file False dir dir_dst
      by (simp add: os_rename_def parent_ok_def os_path_isdir_def)
    have mv: "shutil_move files pf ?dst
        = Inr (map (\<lambda>(p, n). (rename_path pf ?dst p, n)) (filter (\<lambda>(p, n). p \<noteq> ?dst) files))"
      using False rn by (simp add: shutil_move_def os_path_isdir_def)
    have p2: "\<not> prefix (?dst @ ''/'') ?t" using np2 [of "[]"] by simp
    have "map_of (map (\<lambda>(p, n). (rename_path pf ?dst p, n))
        (filter (\<lambda>(p, n). p \<noteq> ?dst) files)) ?t = map_of files ?t"
      using pf_t dst_t np1 p2 by (rule map_of_renamed)
    then show ?thesis unfolding j_dst using mv by simp
  qed
qed

lemma process_project_without_main:
  assumes nm: "CHR ''/'' \<notin> set pf" "endswith pf ''.py''"
    and folder: "folder_name_of pf \<noteq> []"
      "map_of (fs w) (folder_name_of pf) = None \<or> map_of (fs w) (folder_name_of pf) = Some Dir"
    and src: "map_of (fs w) pf = Some (File source)"
      "py source (with_folder (fs w) (folder_name_of pf)) = (Loaded m, files2, printed)"
      "main_attr m = None"
    and ready: "results_ready files2 (folder_name_of pf) pf"
  shows "\<exists>w'. process_project py pf w = (Done, w')
           \<and> map_of (fs w') (folder_name_of pf @ ''/output.txt'') = Some (File no_main_message)
           \<and> console w' = console w @ printed @ [''Successfully processed '' @ pf]"
proof -
  define d where "d = folder_name_of pf"
  let ?t = "d @ ''/output.txt''"
  have d_ne: "d \<noteq> []" and d_free: "map_of (fs w) d = None \<or> map_of (fs w) d = Some Dir"
    using folder by (simp_all add: d_def)
  have d2: "map_of files2 d = Some Dir" and t2: "map_of files2 ?t \<noteq> Some Dir"
    and pf2: "map_of files2 pf \<noteq> Some Dir"
    and nested: "map_of files2 (d @ ''/'' @ pf) = Some Dir
                   \<longrightarrow> map_of files2 (d @ ''/'' @ pf @ ''/'' @ pf) = None"
    using ready by (simp_all add: results_ready_def d_def)
  obtain content where script: "map_of files2 ''input.txt'' = Some (File content)"
    using ready by (auto simp: results_ready_def split: option.splits node.splits)
  have d_ns: "CHR ''/'' \<notin> set d" using nm(1) by (simp add: d_def folder_name_no_slash)
  have pf_ne: "pf \<noteq> []" using nm(2) by (rule endswith_nonempty)
  have pf_out: "pf \<noteq> ''output.txt''" using nm(2) by (rule py_not_output_txt)
  have pf_d: "pf \<noteq> d" using src(1) d_free by auto
  define files1 where "files1 = with_folder (fs w) d"
  have m1: "map_of files1 p = (if p = d then Some Dir else map_of (fs w) p)" for p
    unfolding files1_def using d_free by (rule map_of_with_folder)
  have cpf: "create_project_folder pf w = (Inr d, w\<lparr>fs := files1\<rparr>)"
    using create_project_folder_usable [of pf w] nm(1) d_ne d_free
    by (simp add: d_def files1_def)
  define w2 where "w2 = w\<lparr>fs := files2, console := console w @ printed\<rparr>"
  have py1: "py source files1 = (Loaded m, files2, printed)"
    using src(2) by (simp add: files1_def d_def)
  have imp: "import_student_module py pf (w\<lparr>fs := files1\<rparr>) = (Loaded m, w2)"
    using src(1) py1 pf_d
    by (simp add: import_student_module_def open_read_def m1 w2_def)
  obtain ips where lip: "load_input_prompts w2 = Inr ips"
    using script by (simp add: load_input_prompts_def open_read_def w2_def)
  have cap: "capture_output_and_files m ips d w2 = (Inr [no_main_message], w2)"
    using src(3) by (rule capture_without_main)
  define files4 where "files4 = AList.update ?t (File no_main_message) files2"
  have wr: "open_write (fs w2) (os_path_join d ''output.txt'') (join [LF] [no_main_message])
      = Inr files4"
    using open_write_results [OF d_ne d_ns d2 t2] by (simp add: files4_def w2_def)
  have m4: "map_of files4 p = (if p = ?t then Some (File no_main_message) else map_of files2 p)"
    for p
    by (simp add: files4_def update_conv')
  have pf_t: "pf \<noteq> ?t" using nm(1) by auto
  have "\<exists>files5. (if os_path_exists files4 pf
                   then shutil_move files4 pf (os_path_join d pf) else Inr files4) = Inr files5
           \<and> map_of files5 ?t = map_of files4 ?t"
  proof (cases "map_of files2 pf")
    case None
    then have "\<not> os_path_exists files4 pf" using pf_t by (simp add: os_path_exists_def m4)
    then show ?thesis by simp
  next
    case (Some n)
    then obtain source' where s2: "map_of files2 pf = Some (File source')"
      using pf2 by (cases n) simp_all
    have s4: "map_of files4 pf = Some (File source')" using s2 pf_t by (simp add: m4)
    have pf_d2: "pf \<noteq> d" using s2 d2 by auto
    have d4: "map_of files4 d = Some Dir" using d2 by (simp add: m4)
    have dst_t: "d @ ''/'' @ pf \<noteq> ?t" using pf_out by simp
    have real_t: "d @ ''/'' @ pf @ ''/'' @ pf \<noteq> ?t"
    proof
      assume "d @ ''/'' @ pf @ ''/'' @ pf = ?t"
      then have "''output.txt'' = pf @ ''/'' @ pf" by simp
      then show False by (rule output_txt_no_slash)
    qed
    have n4: "map_of files4 (d @ ''/'' @ pf) = Some Dir
        \<longrightarrow> map_of files4 (d @ ''/'' @ pf @ ''/'' @ pf) = None"
      using nested dst_t real_t by (simp add: m4)
    have ex: "os_path_exists files4 pf" using s4 by (simp add: os_path_exists_def)
    show ?thesis
      using shutil_move_keeps_results [OF nm(1) pf_ne pf_out d_ne d_ns pf_d2 s4 d4 n4] ex
      by simp
  qed
  then obtain files5 where mv: "(if os_path_exists files4 pf
                   then shutil_move files4 pf (os_path_join d pf) else Inr files4) = Inr files5"
    and res: "map_of files5 ?t = map_of files4 ?t" by blast
  have "process_project py pf w
      = (Done, py_print (''Successfully processed '' @ pf) (w2\<lparr>fs := files5\<rparr>))"
    using cpf imp lip cap wr mv
    by (simp add: process_project_def d_def [symmetric])
  then show ?thesis using res by (simp add: py_print_def d_def m4 w2_def)
qed

subsection \<open>A submission without an entry point\<close>

text \<open>
  Claim C8, amended. For a module without the attribute \<^verbatim>\<open>main\<close> the capture phase runs
  nothing: it returns the world as it found it, and the transcript is the one line
  \<^verbatim>\<open>Error: No main() function found in student's code\<close>. The folder receives \<^verbatim>\<open>output.txt\<close>
  with that transcript when the pipeline can archive it: the submission is an entry of the
  working directory whose text loads as this module, the folder's name is not empty and is
  free or a directory, and the directory the load leaves is ready for the results. Then
  \<^verbatim>\<open>process_project\<close> returns, and the console holds what the load printed and the line of
  success.
\<close>

theorem missing_entry_point_is_recorded:
  assumes "main_attr module = None"
  shows "capture_output_and_files module input_prompts folder_name w
           = (Inr [''Error: No main() function found in student's code''], w)
       \<and> (CHR ''/'' \<notin> set project_file \<and> endswith project_file ''.py''
            \<and> folder_name_of project_file \<noteq> []
            \<and> (map_of (fs w) (folder_name_of project_file) = None
                 \<or> map_of (fs w) (folder_name_of project_file) = Some Dir)
            \<and> map_of (fs w) project_file = Some (File source)
            \<and> py source (with_folder (fs w) (folder_name_of project_file))
                 = (Loaded module, files2, printed)
            \<and> results_ready files2 (folder_name_of project_file) project_file
          \<longrightarrow> (\<exists>w'. process_project py project_file w = (Done, w')
                \<and> map_of (fs w') (folder_name_of project_file @ ''/output.txt'')
                    = Some (File ''Error: No main() function found in student's code'')
                \<and> console w' = console w @ printed
                      @ [''Successfully processed '' @ project_file]))"
proof (intro conjI impI)
  show "capture_output_and_files module input_prompts folder_name w
           = (Inr [''Error: No main() function found in student's code''], w)"
    using capture_without_main [OF assms] by (simp add: no_main_message_def)
next
  assume h: "CHR ''/'' \<notin> set project_file \<and> endswith project_file ''.py''
            \<and> folder_name_of project_file \<noteq> []
            \<and> (map_of (fs w) (folder_name_of project_file) = None
                 \<or> map_of (fs w) (folder_name_of project_file) = Some Dir)
            \<and> map_of (fs w) project_file = Some (File source)
            \<and> py source (with_folder (fs w) (folder_name_of project_file))
                 = (Loaded module, files2, printed)
            \<and> results_ready files2 (folder_name_of project_file) project_file"
  then have "\<exists>w'. process_project py project_file w = (Done, w')
           \<and> map_of (fs w') (folder_name_of project_file @ ''/output.txt'')
               = Some (File no_main_message)
           \<and> console w' = console w @ printed @ [''Successfully processed '' @ project_file]"
    using process_project_without_main [of project_file w source py "module" files2 printed] assms
    by blast
  then show "\<exists>w'. process_project py project_file w = (Done, w')
                \<and> map_of (fs w') (folder_name_of project_file @ ''/output.txt'')
                    = Some (File ''Error: No main() function found in student's code'')
                \<and> console w' = console w @ printed
                      @ [''Successfully processed '' @ project_file]"
    by (simp add: no_main_message_def)
qed

theorem missing_entry_point_is_recorded_witness:
  "capture_output_and_files (Module None :: nat module) [''5'', ''3''] ''hw2'' graded_world
     = (Inr [''Error: No main() function found in student's code''], graded_world)
   \<and> (\<exists>w'. process_project script_only ''hw2.py'' graded_world = (Done, w')
         \<and> map_of (fs w') ''hw2/output.txt''
             = Some (File ''Error: No main() function found in student's code'')
         \<and> console w' = [''1'', ''Successfully processed hw2.py''])"
proof -
  have a: "main_attr (Module None :: nat module) = None" by simp
  have n: "CHR ''/'' \<notin> set ''hw2.py''" by simp
  have e: "endswith ''hw2.py'' ''.py''" by (simp add: endswith_def)
  have f: "folder_name_of ''hw2.py'' = ''hw2''" by (simp add: folder_name_of_def)
  have s: "map_of (fs graded_world) ''hw2.py'' = Some (File ''print(1)'')"
    by (simp add: graded_world_def quiet_world_def)
  have d: "map_of (fs graded_world) ''hw2'' = None"
    by (simp add: graded_world_def quiet_world_def)
  have l: "script_only ''print(1)'' (with_folder (fs graded_world) ''hw2'')
      = (Loaded (Module None), with_folder (fs graded_world) ''hw2'', [''1''])"
    by (simp add: script_only_def)
  have r: "results_ready (with_folder (fs graded_world) ''hw2'') ''hw2'' ''hw2.py''"
    by (simp add: results_ready_def with_folder_def graded_world_def quiet_world_def)
  have c: "console graded_world = []" by (simp add: graded_world_def quiet_world_def)
  from missing_entry_point_is_recorded [OF a, of "[''5'', ''3'']" "''hw2''" graded_world
      "''hw2.py''" "''print(1)''" script_only "with_folder (fs graded_world) ''hw2''" "[''1'']"]
    n e s d l r
  show ?thesis by (simp add: f c)
qed

text \<open>
  The claim as it stands gives every submission without an entry point a results file with
  that transcript. Without \<^verbatim>\<open>input.txt\<close> line 149 raises before the capture phase, and
  \<^verbatim>\<open>output.txt\<close> holds the error record of line 175; where the folder's name is taken by a
  regular file, no \<^verbatim>\<open>output.txt\<close> can be written at all.
\<close>

theorem missing_entry_point_results_counterexample:
  "fst (process_project script_only ''hw2.py'' unscripted_world) = Done
   \<and> map_of (fs (snd (process_project script_only ''hw2.py'' unscripted_world))) ''hw2/output.txt''
       = Some (File (''Error processing project: '' @ exn_str (FileNotFoundError ''input.txt'')
                     @ [LF] @ exn_trace (FileNotFoundError ''input.txt'')))
   \<and> map_of (fs (snd (process_project script_only ''hw2.py'' unscripted_world))) ''hw2/output.txt''
       \<noteq> Some (File ''Error: No main() function found in student's code'')
   \<and> fst (process_project script_only ''hw2.py'' taken_world) = Done
   \<and> map_of (fs (snd (process_project script_only ''hw2.py'' taken_world))) ''hw2/output.txt''
       = None"
  by code_simp

end
